theory Spec2Isabelle
  imports Complex_Main "HOL-Library.Multiset"
begin

section \<open>JavaScript values\<close>

text \<open>
  The values the handlers compute with: what a parsed JSON body holds, plus
  \<open>undefined\<close>, which reading a property that is not there yields. Numbers are
  doubles; the model keeps \<open>NaN\<close> and the infinities apart from the finite
  values, which are rationals (\<open>-0\<close> and \<open>0\<close> are not told apart: nothing the
  handlers do distinguishes them). Strings are byte lists (UTF-8).
\<close>

datatype jsnum = NaN | PosInf | NegInf | Fin rat

datatype jsval =
    JUndefined
  | JNull
  | JBool bool
  | JNum jsnum
  | JStr string
  | JArr "jsval list"
  | JObj "(string \<times> jsval) list"

abbreviation num :: "rat \<Rightarrow> jsval" where
  "num r \<equiv> JNum (Fin r)"

text \<open>ToBoolean: the falsy values are undefined, null, false, 0, NaN and the empty string.\<close>

fun truthy :: "jsval \<Rightarrow> bool" where
  "truthy JUndefined = False"
| "truthy JNull = False"
| "truthy (JBool b) = b"
| "truthy (JNum n) = (n \<noteq> NaN \<and> n \<noteq> Fin 0)"
| "truthy (JStr s) = (s \<noteq> [])"
| "truthy (JArr xs) = True"
| "truthy (JObj kvs) = True"

fun nullish :: "jsval \<Rightarrow> bool" where
  "nullish JUndefined = True"
| "nullish JNull = True"
| "nullish v = False"

text \<open>
  \<open>v.k\<close> for a value that is neither undefined nor null, and for the property names
  the handlers read (field names of the entities, \<open>id\<close>, \<open>plans\<close>, \<open>status\<close>,
  \<open>message\<close>): an object yields its own property or undefined; a string, an
  array, a number or a boolean has none of these names, own or inherited.
\<close>

fun jsprop :: "jsval \<Rightarrow> string \<Rightarrow> jsval" where
  "jsprop (JObj kvs) k = (case map_of kvs k of Some v \<Rightarrow> v | None \<Rightarrow> JUndefined)"
| "jsprop v k = JUndefined"

text \<open>Strict equality \<open>===\<close> of two values obtained separately (two objects are never the same reference).\<close>

fun strict_eq :: "jsval \<Rightarrow> jsval \<Rightarrow> bool" where
  "strict_eq (JNum NaN) b = False"
| "strict_eq (JArr xs) b = False"
| "strict_eq (JObj kvs) b = False"
| "strict_eq a b = (a = b)"


text \<open>\<open>Array.prototype.sort\<close> with a comparator: a stable insertion sort.\<close>

fun js_insert :: "('a \<Rightarrow> 'a \<Rightarrow> int) \<Rightarrow> 'a \<Rightarrow> 'a list \<Rightarrow> 'a list" where
  "js_insert cmp x [] = [x]"
| "js_insert cmp x (y # ys) = (if cmp x y \<le> 0 then x # y # ys else y # js_insert cmp x ys)"

fun js_sort :: "('a \<Rightarrow> 'a \<Rightarrow> int) \<Rightarrow> 'a list \<Rightarrow> 'a list" where
  "js_sort cmp [] = []"
| "js_sort cmp (x # xs) = js_insert cmp x (js_sort cmp xs)"

text \<open>\<open>Array.prototype.join\<close> on strings and \<open>String.prototype.split\<close> at a one-character separator.\<close>

fun join :: "string \<Rightarrow> string list \<Rightarrow> string" where
  "join sep [] = []"
| "join sep [x] = x"
| "join sep (x # y # ys) = x @ sep @ join sep (y # ys)"

fun split :: "char \<Rightarrow> string \<Rightarrow> string list" where
  "split c [] = [[]]"
| "split c (x # xs) =
     (if x = c then [] # split c xs
      else (case split c xs of [] \<Rightarrow> [[x]] | w # ws \<Rightarrow> (x # w) # ws))"

section \<open>Messages\<close>

text \<open>The message literals of the source, as their UTF-8 bytes.\<close>

definition msg_missing_prefix :: string where
  "msg_missing_prefix = [CHR 0xE7, CHR 0xBC, CHR 0xBA, CHR 0xE5, CHR 0xB0, CHR 0x91, CHR 0xE5, CHR 0xBF, CHR 0x85, CHR 0xE8, CHR 0xA6, CHR 0x81, CHR 0xE6, CHR 0xAC, CHR 0x84, CHR 0xE4, CHR 0xBD, CHR 0x8D, CHR 0x3A, CHR 0x20]"

definition msg_no_token :: string where
  "msg_no_token = [CHR 0xE6, CHR 0x9C, CHR 0xAA, CHR 0xE6, CHR 0x8F, CHR 0x90, CHR 0xE4, CHR 0xBE, CHR 0x9B, CHR 0xE6, CHR 0x9C, CHR 0x89, CHR 0xE6, CHR 0x95, CHR 0x88, CHR 0xE7, CHR 0x9A, CHR 0x84, CHR 0x20, CHR 0x74, CHR 0x6F, CHR 0x6B, CHR 0x65, CHR 0x6E]"

definition msg_bad_token :: string where
  "msg_bad_token = [CHR 0xE7, CHR 0x84, CHR 0xA1, CHR 0xE6, CHR 0x95, CHR 0x88, CHR 0xE7, CHR 0x9A, CHR 0x84, CHR 0x20, CHR 0x74, CHR 0x6F, CHR 0x6B, CHR 0x65, CHR 0x6E]"

definition msg_no_user :: string where
  "msg_no_user = [CHR 0xE6, CHR 0x89, CHR 0xBE, CHR 0xE4, CHR 0xB8, CHR 0x8D, CHR 0xE5, CHR 0x88, CHR 0xB0, CHR 0xE5, CHR 0xB0, CHR 0x8D, CHR 0xE6, CHR 0x87, CHR 0x89, CHR 0xE7, CHR 0x9A, CHR 0x84, CHR 0xE4, CHR 0xBD, CHR 0xBF, CHR 0xE7, CHR 0x94, CHR 0xA8, CHR 0xE8, CHR 0x80, CHR 0x85]"

definition msg_bad_category :: string where
  "msg_bad_category = [CHR 0xE7, CHR 0x84, CHR 0xA1, CHR 0xE6, CHR 0x95, CHR 0x88, CHR 0xE7, CHR 0x9A, CHR 0x84, CHR 0x20, CHR 0x63, CHR 0x61, CHR 0x74, CHR 0x65, CHR 0x67, CHR 0x6F, CHR 0x72, CHR 0x79]"

definition msg_project_created :: string where
  "msg_project_created = [CHR 0xE5, CHR 0xB0, CHR 0x88, CHR 0xE6, CHR 0xA1, CHR 0x88, CHR 0xE5, CHR 0xBB, CHR 0xBA, CHR 0xE7, CHR 0xAB, CHR 0x8B, CHR 0xE6, CHR 0x88, CHR 0x90, CHR 0xE5, CHR 0x8A, CHR 0x9F]"

definition msg_fields_invalid :: string where
  "msg_fields_invalid = [CHR 0xE6, CHR 0xAC, CHR 0x84, CHR 0xE4, CHR 0xBD, CHR 0x8D, CHR 0xE5, CHR 0xA1, CHR 0xAB, CHR 0xE5, CHR 0xAF, CHR 0xAB, CHR 0xE4, CHR 0xB8, CHR 0x8D, CHR 0xE5, CHR 0xAE, CHR 0x8C, CHR 0xE6, CHR 0x95, CHR 0xB4, CHR 0xE6, CHR 0x88, CHR 0x96, CHR 0xE6, CHR 0x9C, CHR 0x89, CHR 0xE8, CHR 0xAA, CHR 0xA4]"

definition msg_project_not_found :: string where
  "msg_project_not_found = [CHR 0xE6, CHR 0x89, CHR 0xBE, CHR 0xE4, CHR 0xB8, CHR 0x8D, CHR 0xE5, CHR 0x88, CHR 0xB0, CHR 0xE5, CHR 0xB0, CHR 0x88, CHR 0xE6, CHR 0xA1, CHR 0x88]"

definition msg_plan_created :: string where
  "msg_plan_created = [CHR 0xE5, CHR 0x9B, CHR 0x9E, CHR 0xE9, CHR 0xA5, CHR 0x8B, CHR 0xE6, CHR 0x96, CHR 0xB9, CHR 0xE6, CHR 0xA1, CHR 0x88, CHR 0xE5, CHR 0xBB, CHR 0xBA, CHR 0xE7, CHR 0xAB, CHR 0x8B, CHR 0xE6, CHR 0x88, CHR 0x90, CHR 0xE5, CHR 0x8A, CHR 0x9F]"

definition msg_plan_error :: string where
  "msg_plan_error = [CHR 0xE5, CHR 0x9B, CHR 0x9E, CHR 0xE9, CHR 0xA5, CHR 0x8B, CHR 0xE6, CHR 0x96, CHR 0xB9, CHR 0xE6, CHR 0xA1, CHR 0x88, CHR 0xE5, CHR 0xBB, CHR 0xBA, CHR 0xE7, CHR 0xAB, CHR 0x8B, CHR 0xE9, CHR 0x8C, CHR 0xAF, CHR 0xE8, CHR 0xAA, CHR 0xA4]"

definition msg_no_such_project :: string where
  "msg_no_such_project = [CHR 0xE7, CHR 0x84, CHR 0xA1, CHR 0xE6, CHR 0xAD, CHR 0xA4, CHR 0xE5, CHR 0xB0, CHR 0x88, CHR 0xE6, CHR 0xA1, CHR 0x88]"

definition msg_proposal_not_found :: string where
  "msg_proposal_not_found = [CHR 0xE6, CHR 0x89, CHR 0xBE, CHR 0xE4, CHR 0xB8, CHR 0x8D, CHR 0xE5, CHR 0x88, CHR 0xB0, CHR 0xE6, CHR 0x8F, CHR 0x90, CHR 0xE6, CHR 0xA1, CHR 0x88]"

definition msg_no_permission :: string where
  "msg_no_permission = [CHR 0xE4, CHR 0xBD, CHR 0xA0, CHR 0xE6, CHR 0xB2, CHR 0x92, CHR 0xE6, CHR 0x9C, CHR 0x89, CHR 0xE4, CHR 0xBF, CHR 0xAE, CHR 0xE6, CHR 0x94, CHR 0xB9, CHR 0xE6, CHR 0xAD, CHR 0xA4, CHR 0xE6, CHR 0x8F, CHR 0x90, CHR 0xE6, CHR 0xA1, CHR 0x88, CHR 0xE7, CHR 0x9A, CHR 0x84, CHR 0xE6, CHR 0xAC, CHR 0x8A, CHR 0xE9, CHR 0x99, CHR 0x90]"

definition msg_no_route :: string where
  "msg_no_route = [CHR 0xE7, CHR 0x84, CHR 0xA1, CHR 0xE6, CHR 0xAD, CHR 0xA4, CHR 0xE8, CHR 0xB7, CHR 0xAF, CHR 0xE7, CHR 0x94, CHR 0xB1]"

definition msg_unknown_error :: string where
  "msg_unknown_error = [CHR 0xE6, CHR 0x9C, CHR 0xAA, CHR 0xE7, CHR 0x9F, CHR 0xA5, CHR 0xE9, CHR 0x8C, CHR 0xAF, CHR 0xE8, CHR 0xAA, CHR 0xA4]"

definition msg_server_error :: string where
  "msg_server_error = [CHR 0xE4, CHR 0xBC, CHR 0xBA, CHR 0xE6, CHR 0x9C, CHR 0x8D, CHR 0xE5, CHR 0x99, CHR 0xA8, CHR 0xE9, CHR 0x8C, CHR 0xAF, CHR 0xE8, CHR 0xAA, CHR 0xA4]"

section \<open>Requests, responses and the persistence layer\<close>

record request =
  req_method :: string
  req_path :: string
  req_authorization :: "string option"
  req_params :: jsval
  req_body :: jsval
  req_user :: jsval
  req_log :: bool

text \<open>
  \<open>req_log\<close> says whether \<open>req.log\<close> is set: the \<open>pino-http\<close> middleware
  attaches it, so it is unset on a request that has not yet passed that middleware.
  A response is a status with a JSON body or a text, or the framework's own error
  page (HTML, its text depending on the environment).
\<close>

datatype payload = Json jsval | Text string | ErrorPage

record response =
  code :: jsval
  payload :: payload

text \<open>A handler either answers (\<open>res.status(c).json(b)\<close>) or forwards an error (\<open>next(err)\<close>).\<close>

datatype outcome = Respond response | Next_err jsval

text \<open>
  Modelled from the spec: the declaration of the project entity is not among the
  sources. A project row holds the nine scalar fields, the owner column
  \<open>user_id\<close> that the lookup of \<open>updateProject\<close> filters on, and the relations
  \<open>user\<close> and \<open>category\<close> as they load (an entity object). The column and
  the loaded relation are kept apart, as the code reads them apart.
\<close>

record project =
  title :: jsval
  summary :: jsval
  total_amount :: jsval
  start_time :: jsval
  end_time :: jsval
  cover :: jsval
  full_content :: jsval
  project_team :: jsval
  faq :: jsval
  category :: jsval
  user_id :: jsval
  user :: jsval

text \<open>
  Modelled from the spec: the declaration of the plan entity is not among the
  sources. A plan row holds the six display fields (what \<open>create\<close> is given),
  its numeric identifier \<open>plan_id\<close>, generated on insert, and the id of its
  owning project.
\<close>

record plan_fields =
  plan_name :: jsval
  amount :: jsval
  quantity :: jsval
  feedback :: jsval
  feedback_img :: jsval
  delivery_date :: jsval

record plan = plan_fields +
  plan_id :: int
  project_id :: int

text \<open>
  The tables: users and categories by id (an entity is an object, given by its
  properties), projects by their numeric id, the plans as a list in storage order.
  The two counters are the identifiers the store generates next. A lookup compares
  the criterion with the column by value; what the object-relational mapper does
  with a criterion that is undefined or null is outside the model.
\<close>

record db =
  users :: "jsval \<rightharpoonup> (string \<times> jsval) list"
  categories :: "jsval \<rightharpoonup> (string \<times> jsval) list"
  projects :: "int \<rightharpoonup> project"
  next_project_id :: int
  projectPlans :: "plan list"
  next_plan_id :: int

text \<open>The awaited repository calls of the handlers, one name for each call site.\<close>

datatype db_call =
    FindUser | FindCategory | SaveNewProject
  | FindProjectForPlan | SavePlan
  | FindProjectWithPlans
  | FindOwnedProject | DeletePlans | SavePlans | SaveProject

text \<open>
  What the handlers take from outside the repository. \<open>Number\<close> and
  \<open>parseInt\<close> (radix 10; \<open>None\<close> is NaN) are the language's built-ins;
  \<open>Number\<close> throws on an object whose \<open>valueOf\<close> and \<open>toString\<close> are not
  callable. \<open>TypeError\<close> is the error object the engine throws on reading a
  property of undefined or null. \<open>rejects c\<close> is \<open>Some e\<close> when the awaited
  repository call \<open>c\<close> rejects with the error object \<open>e\<close>.
  \<open>jwt_verify\<close> is \<open>jwt.verify\<close> under the configured secret.
\<close>

record env =
  Number :: "jsval \<Rightarrow> (string \<times> jsval) list + jsnum"
  parseInt :: "jsval \<Rightarrow> int option"
  TypeError :: "(string \<times> jsval) list"
  rejects :: "db_call \<Rightarrow> (string \<times> jsval) list option"
  jwt_verify :: "string \<Rightarrow> (string \<times> jsval) list + jsval"

text \<open>
  Modelled from the spec: \<open>utils/appError\<close> is not among the sources; handlers
  "forward a tagged error (status + message)".
\<close>

definition appError :: "rat \<Rightarrow> jsval \<Rightarrow> jsval" where
  "appError status errMessage = JObj [(''message'', errMessage), (''status'', num status)]"

text \<open>\<open>v.k\<close> where \<open>v\<close> may be undefined or null.\<close>

definition getProp :: "env \<Rightarrow> jsval \<Rightarrow> string \<Rightarrow> jsval + jsval" where
  "getProp E v k = (if nullish v then Inl (JObj (TypeError E)) else Inr (jsprop v k))"

text \<open>\<open>x || d\<close>\<close>

definition or_else :: "jsval \<Rightarrow> jsval \<Rightarrow> jsval" where
  "or_else x d = (if truthy x then x else d)"

section \<open>The project handlers\<close>

text \<open>
  Each handler takes the store and the request and returns the store it leaves
  and its outcome. The body of a \<open>try\<close> block returns the store together with
  either the value thrown (\<open>Inl\<close>) or the outcome (\<open>Inr\<close>): what was written
  before a throw stays written. The calls to the module's own logger and to
  \<open>console.error\<close> are left out.
\<close>

text \<open>\<open>res.status(c).json(b)\<close>\<close>

definition status_json :: "rat \<Rightarrow> jsval \<Rightarrow> outcome" where
  "status_json c b = Respond \<lparr>code = num c, payload = Json b\<rparr>"

text \<open>An awaited repository call that may reject, and a step that may throw.\<close>

definition await :: "env \<Rightarrow> db_call \<Rightarrow> db \<Rightarrow> db \<times> (jsval + 'a) \<Rightarrow> db \<times> (jsval + 'a)" where
  "await E c db k = (case rejects E c of Some e \<Rightarrow> (db, Inl (JObj e)) | None \<Rightarrow> k)"

definition attempt :: "jsval + 'a \<Rightarrow> db \<Rightarrow> ('a \<Rightarrow> db \<times> (jsval + 'b)) \<Rightarrow> db \<times> (jsval + 'b)" where
  "attempt x db k = (case x of Inl e \<Rightarrow> (db, Inl e) | Inr v \<Rightarrow> k v)"

text \<open>\<open>findOneBy({ id })\<close> and \<open>findOne({ where: { id } })\<close> on the projects, for the value \<open>parseInt\<close> gave.\<close>

definition find_project :: "db \<Rightarrow> int option \<Rightarrow> (int \<times> project) option" where
  "find_project db projectId =
     (case projectId of None \<Rightarrow> None | Some i \<Rightarrow> map_option (\<lambda>p. (i, p)) (projects db i))"

definition requiredFields :: "string list" where
  "requiredFields = [''title'', ''summary'', ''category_id'', ''total_amount'', ''start_time'',
     ''end_time'', ''cover'', ''full_content'', ''project_team'', ''faq'']"

definition checkMissingProjectFields :: "env \<Rightarrow> jsval \<Rightarrow> jsval + string list" where
  "checkMissingProjectFields E body =
     (if nullish body then Inl (JObj (TypeError E))
      else Inr (filter (\<lambda>field. \<not> truthy (jsprop body field)) requiredFields))"

text \<open>\<open>req.headers.authorization?.split(" ")[1]\<close>; \<open>None\<close> is undefined.\<close>

definition bearer_token :: "request \<Rightarrow> string option" where
  "bearer_token req =
     (case req_authorization req of
        None \<Rightarrow> None
      | Some s \<Rightarrow> (case split (CHR '' '') s of a # t # ws \<Rightarrow> Some t | _ \<Rightarrow> None))"

definition createProject_try :: "env \<Rightarrow> db \<Rightarrow> request \<Rightarrow> db \<times> (jsval + outcome)" where
  "createProject_try E db req =
     (let body = req_body req in
      if nullish body then (db, Inl (JObj (TypeError E)))
      else attempt (checkMissingProjectFields E body) db (\<lambda>missingFields.
      if length missingFields > 0 then
        (db, Inr (status_json 400 (JObj
           [(''status'', JBool False),
            (''message'', JStr (msg_missing_prefix @ join '', '' missingFields))])))
      else (case bearer_token req of
        None \<Rightarrow> (db, Inr (status_json 401 (JObj
           [(''status'', JBool False), (''message'', JStr msg_no_token)])))
      | Some token \<Rightarrow>
      if token = [] then (db, Inr (status_json 401 (JObj
           [(''status'', JBool False), (''message'', JStr msg_no_token)])))
      else (case jwt_verify E token of
        Inl err \<Rightarrow> (db, Inr (status_json 401 (JObj
           [(''status'', JBool False), (''message'', JStr msg_bad_token)])))
      | Inr decoded \<Rightarrow>
      attempt (getProp E decoded ''id'') db (\<lambda>uid.
      await E FindUser db
      (case users db uid of
        None \<Rightarrow> (db, Inr (Next_err (appError 400 (JStr msg_no_user))))
      | Some u \<Rightarrow>
      await E FindCategory db
      (case categories db (jsprop body ''category_id'') of
        None \<Rightarrow> (db, Inr (Next_err (appError 400 (JStr msg_bad_category))))
      | Some existingCategory \<Rightarrow>
      await E SaveNewProject db
        (let newProject = \<lparr>title = jsprop body ''title'', summary = jsprop body ''summary'',
              total_amount = jsprop body ''total_amount'', start_time = jsprop body ''start_time'',
              end_time = jsprop body ''end_time'', cover = jsprop body ''cover'',
              full_content = jsprop body ''full_content'', project_team = jsprop body ''project_team'',
              faq = jsprop body ''faq'', category = JObj existingCategory,
              user_id = uid, user = JObj u\<rparr>;
            id = next_project_id db
         in (db\<lparr>projects := (projects db)(id \<mapsto> newProject), next_project_id := id + 1\<rparr>,
            Inr (status_json 200 (JObj
              [(''status'', JBool True), (''message'', JStr msg_project_created),
               (''data'', JObj [(''project_id'', num (of_int id))])])))))))))))"

definition createProject :: "env \<Rightarrow> db \<Rightarrow> request \<Rightarrow> db \<times> outcome" where
  "createProject E db req =
     (case createProject_try E db req of
        (db', Inr out) \<Rightarrow> (db', out)
      | (db', Inl err) \<Rightarrow>
          (db', Next_err (appError 400 (or_else (jsprop err ''message'') (JStr msg_fields_invalid)))))"

text \<open>The project entity as \<open>findOneBy\<close> loads it: the columns, no relation.\<close>

definition project_entity :: "int \<Rightarrow> project \<Rightarrow> jsval" where
  "project_entity i p = JObj
     [(''id'', num (of_int i)), (''title'', title p), (''summary'', summary p),
      (''total_amount'', total_amount p), (''start_time'', start_time p),
      (''end_time'', end_time p), (''cover'', cover p), (''full_content'', full_content p),
      (''project_team'', project_team p), (''faq'', faq p), (''user_id'', user_id p)]"

text \<open>The plan entity after \<open>save\<close>: what \<open>create\<close> was given, and the generated identifier.\<close>

definition plan_entity :: "plan \<Rightarrow> jsval \<Rightarrow> jsval" where
  "plan_entity pl project = JObj
     [(''plan_name'', plan_name pl), (''amount'', amount pl), (''quantity'', quantity pl),
      (''feedback'', feedback pl), (''feedback_img'', feedback_img pl),
      (''delivery_date'', delivery_date pl), (''project'', project),
      (''plan_id'', num (of_int (plan_id pl)))]"

definition createProjectPlan_try :: "env \<Rightarrow> db \<Rightarrow> request \<Rightarrow> db \<times> (jsval + outcome)" where
  "createProjectPlan_try E db req =
     (let projectId = parseInt E (jsprop (req_params req) ''id'') in
      attempt (getProp E (req_body req) ''plans'') db (\<lambda>plans.
      if nullish plans then (db, Inl (JObj (TypeError E)))
      else await E FindProjectForPlan db
      (case find_project db projectId of
        None \<Rightarrow> (db, Inr (status_json 404 (JObj
           [(''status'', JBool False), (''message'', JStr msg_project_not_found)])))
      | Some (i, project) \<Rightarrow>
      await E SavePlan db
        (let newPlan = \<lparr>plan_name = jsprop plans ''plan_name'', amount = jsprop plans ''amount'',
              quantity = jsprop plans ''quantity'', feedback = jsprop plans ''feedback'',
              feedback_img = jsprop plans ''feedback_img'',
              delivery_date = jsprop plans ''delivery_date'',
              plan_id = next_plan_id db, project_id = i\<rparr>
         in (db\<lparr>projectPlans := projectPlans db @ [newPlan], next_plan_id := next_plan_id db + 1\<rparr>,
            Inr (status_json 201 (JObj
              [(''status'', JBool True), (''message'', JStr msg_plan_created),
               (''data'', plan_entity newPlan (project_entity i project))])))))))"

definition createProjectPlan :: "env \<Rightarrow> db \<Rightarrow> request \<Rightarrow> db \<times> outcome" where
  "createProjectPlan E db req =
     (case createProjectPlan_try E db req of
        (db', Inr out) \<Rightarrow> (db', out)
      | (db', Inl err) \<Rightarrow>
          (db', Next_err (appError 500 (or_else (jsprop err ''message'') (JStr msg_plan_error)))))"

text \<open>The \<open>projectPlans\<close> relation of a project: its plans, in storage order.\<close>

definition plans_of :: "db \<Rightarrow> int \<Rightarrow> plan list" where
  "plans_of db i = filter (\<lambda>pl. project_id pl = i) (projectPlans db)"

definition shape_plan :: "plan \<Rightarrow> jsval" where
  "shape_plan pl = JObj
     [(''plan_name'', plan_name pl), (''amount'', amount pl), (''quantity'', quantity pl),
      (''feedback'', feedback pl), (''feedback_img'', feedback_img pl),
      (''delivery_date'', delivery_date pl)]"

text \<open>
  \<open>getProject\<close> loads the project with the relation \<open>projectPlans\<close> only, so
  \<open>project.category\<close> is not populated there.
\<close>

definition getProject_try :: "env \<Rightarrow> db \<Rightarrow> int option \<Rightarrow> db \<times> (jsval + outcome)" where
  "getProject_try E db projectId =
     await E FindProjectWithPlans db
     (case find_project db projectId of
        None \<Rightarrow> (db, Inr (Next_err (appError 404 (JStr msg_no_such_project))))
      | Some (i, project) \<Rightarrow>
        (let sortedPlans = js_sort (\<lambda>a b. plan_id a - plan_id b) (plans_of db i);
            plans = map shape_plan sortedPlans;
            responseData = JObj
              [(''title'', title project), (''summary'', summary project),
               (''category'', JUndefined), (''total_amount'', total_amount project),
               (''start_time'', start_time project), (''end_time'', end_time project),
               (''cover'', cover project), (''full_content'', full_content project),
               (''project_team'', project_team project),
               (''faq'', or_else (faq project) (JArr [])), (''plans'', JArr plans)]
         in (db, Inr (status_json 200 (JObj
              [(''status'', JBool True), (''data'', responseData)])))))"

definition getProject :: "env \<Rightarrow> db \<Rightarrow> request \<Rightarrow> db \<times> outcome" where
  "getProject E db req =
     (let projectId = parseInt E (jsprop (req_params req) ''project_id'') in
      case getProject_try E db projectId of
        (db', Inr out) \<Rightarrow> (db', out)
      | (db', Inl error) \<Rightarrow> (db', Next_err error))"

text \<open>
  \<open>findOne({ where: { id: projectId, user_id: user.id }, relations: ["user", "category"] })\<close>:
  the project of that id, if its owner column holds the given user id.
\<close>

definition findOwned :: "db \<Rightarrow> int option \<Rightarrow> jsval \<Rightarrow> (int \<times> project) option" where
  "findOwned db projectId uid =
     (case find_project db projectId of
        None \<Rightarrow> None
      | Some (i, p) \<Rightarrow> if user_id p = uid then Some (i, p) else None)"

text \<open>\<open>if (x !== undefined) project.f = x\<close>\<close>

definition assign :: "jsval \<Rightarrow> jsval \<Rightarrow> jsval" where
  "assign x old = (if x \<noteq> JUndefined then x else old)"

text \<open>\<open>if (total_amount !== undefined) project.total_amount = Number(total_amount)\<close>\<close>

definition assign_number :: "env \<Rightarrow> jsval \<Rightarrow> jsval \<Rightarrow> jsval + jsval" where
  "assign_number E x old =
     (if x \<noteq> JUndefined
      then (case Number E x of Inl e \<Rightarrow> Inl (JObj e) | Inr n \<Rightarrow> Inr (JNum n))
      else Inr old)"

text \<open>
  The nine conditional assignments to the loaded project. Only the conversion of
  \<open>total_amount\<close> can throw, and the object is in memory, so the model converts
  first and then assigns.
\<close>

definition assign_fields :: "env \<Rightarrow> jsval \<Rightarrow> project \<Rightarrow> jsval + project" where
  "assign_fields E body project =
     (case assign_number E (jsprop body ''total_amount'') (total_amount project) of
        Inl e \<Rightarrow> Inl e
      | Inr t \<Rightarrow> Inr (project\<lparr>
          title := assign (jsprop body ''title'') (title project),
          summary := assign (jsprop body ''summary'') (summary project),
          total_amount := t,
          start_time := assign (jsprop body ''start_time'') (start_time project),
          end_time := assign (jsprop body ''end_time'') (end_time project),
          cover := assign (jsprop body ''cover'') (cover project),
          full_content := assign (jsprop body ''full_content'') (full_content project),
          project_team := assign (jsprop body ''project_team'') (project_team project),
          faq := assign (jsprop body ''faq'') (faq project)\<rparr>))"

text \<open>The callback of \<open>req.body.plans.map\<close>: the fields \<open>planRepo.create\<close> is given.\<close>

definition create_plan :: "env \<Rightarrow> jsval \<Rightarrow> jsval + plan_fields" where
  "create_plan E plan =
     (if nullish plan then Inl (JObj (TypeError E))
      else (case Number E (jsprop plan ''amount'') of
        Inl e \<Rightarrow> Inl (JObj e)
      | Inr a \<Rightarrow>
        (case (if truthy (jsprop plan ''quantity'') then Number E (jsprop plan ''quantity'')
               else Inr (Fin 0)) of
          Inl e \<Rightarrow> Inl (JObj e)
        | Inr q \<Rightarrow> Inr \<lparr>plan_name = jsprop plan ''plan_name'', amount = JNum a,
              quantity = JNum q, feedback = jsprop plan ''feedback'',
              feedback_img = jsprop plan ''feedback_img'',
              delivery_date = jsprop plan ''delivery_date''\<rparr>)))"

fun create_plans :: "env \<Rightarrow> jsval list \<Rightarrow> jsval + plan_fields list" where
  "create_plans E [] = Inr []"
| "create_plans E (p # ps) =
     (case create_plan E p of
        Inl e \<Rightarrow> Inl e
      | Inr d \<Rightarrow> (case create_plans E ps of Inl e \<Rightarrow> Inl e | Inr ds \<Rightarrow> Inr (d # ds)))"

text \<open>\<open>planRepo.save(newPlans)\<close>: one row for each new plan, with identifiers from \<open>n\<close> on.\<close>

fun insert_plans :: "int \<Rightarrow> int \<Rightarrow> plan_fields list \<Rightarrow> plan list" where
  "insert_plans n i [] = []"
| "insert_plans n i (d # ds) =
     \<lparr>plan_name = plan_name d, amount = amount d, quantity = quantity d,
      feedback = feedback d, feedback_img = feedback_img d, delivery_date = delivery_date d,
      plan_id = n, project_id = i\<rparr> # insert_plans (n + 1) i ds"

text \<open>\<open>planRepo.delete({ project: { id: projectId } })\<close>\<close>

definition delete_plans :: "db \<Rightarrow> int \<Rightarrow> db" where
  "delete_plans db i = db\<lparr>projectPlans := filter (\<lambda>pl. project_id pl \<noteq> i) (projectPlans db)\<rparr>"

definition save_plans :: "db \<Rightarrow> int \<Rightarrow> plan_fields list \<Rightarrow> db" where
  "save_plans db i newPlans =
     db\<lparr>projectPlans := projectPlans db @ insert_plans (next_plan_id db) i newPlans,
        next_plan_id := next_plan_id db + int (length newPlans)\<rparr>"

text \<open>The block under \<open>if (Array.isArray(req.body.plans))\<close>.\<close>

definition replacePlans :: "env \<Rightarrow> db \<Rightarrow> int \<Rightarrow> jsval \<Rightarrow> db \<times> (jsval + unit)" where
  "replacePlans E db i body =
     (case jsprop body ''plans'' of
        JArr elems \<Rightarrow>
          await E DeletePlans db
          (let db1 = delete_plans db i in
           attempt (create_plans E elems) db1 (\<lambda>newPlans.
           await E SavePlans db1 (save_plans db1 i newPlans, Inr ())))
      | _ \<Rightarrow> (db, Inr ()))"

definition updateProject_try :: "env \<Rightarrow> db \<Rightarrow> request \<Rightarrow> db \<times> (jsval + outcome)" where
  "updateProject_try E db req =
     (let projectId = parseInt E (jsprop (req_params req) ''project_id'');
          body = req_body req in
      attempt (getProp E (req_user req) ''id'') db (\<lambda>uid.
      await E FindOwnedProject db
      (case findOwned db projectId uid of
        None \<Rightarrow> (db, Inr (Next_err (appError 400 (JStr msg_proposal_not_found))))
      | Some (i, project) \<Rightarrow>
      attempt (getProp E (user project) ''id'') db (\<lambda>owner.
      if \<not> strict_eq owner uid then
        (db, Inr (Next_err (appError 403 (JStr msg_no_permission))))
      else if nullish body then (db, Inl (JObj (TypeError E)))
      else attempt (assign_fields E body project) db (\<lambda>project'.
      (case replacePlans E db i body of
        (db1, Inl e) \<Rightarrow> (db1, Inl e)
      | (db1, Inr u) \<Rightarrow>
      await E SaveProject db1
        (db1\<lparr>projects := (projects db1)(i \<mapsto> project')\<rparr>,
         Inr (status_json 200 (JObj
           [(''status'', JBool True),
            (''data'', JObj [(''project_id'', num (of_int i))])])))))))))"

definition updateProject :: "env \<Rightarrow> db \<Rightarrow> request \<Rightarrow> db \<times> outcome" where
  "updateProject E db req =
     (case updateProject_try E db req of
        (db', Inr out) \<Rightarrow> (db', out)
      | (db', Inl error) \<Rightarrow> (db', Next_err error))"

section \<open>The application\<close>

text \<open>
  A middleware passes the request on (\<open>next()\<close>), answers it, or raises
  (\<open>next(err)\<close>). The library middleware and the routers mounted before the last
  two handlers are taken as given; \<open>route_match\<close> is the framework's path matcher.
\<close>

datatype step = Pass request | Answer response | Raise jsval

record libs =
  lib_cors :: "request \<Rightarrow> step"
  lib_json :: "request \<Rightarrow> step"
  lib_urlencoded :: "request \<Rightarrow> step"
  lib_pinoHttp :: "request \<Rightarrow> step"
  lib_static :: "request \<Rightarrow> step"
  usersRouter :: "db \<Rightarrow> request \<Rightarrow> db \<times> step"
  projectRouter :: "db \<Rightarrow> request \<Rightarrow> db \<times> step"
  uploadRouter :: "db \<Rightarrow> request \<Rightarrow> db \<times> step"
  route_match :: "string \<Rightarrow> string \<Rightarrow> bool"

text \<open>\<open>app.get("/healthcheck", ...)\<close>; a GET route also serves HEAD.\<close>

definition healthcheck :: "libs \<Rightarrow> request \<Rightarrow> step" where
  "healthcheck L req =
     (if (req_method req = ''GET'' \<or> req_method req = ''HEAD'')
          \<and> route_match L ''/healthcheck'' (req_path req)
      then Answer \<lparr>code = num 200, payload = Text ''OK''\<rparr>
      else Pass req)"

text \<open>The 404 handler: it reads nothing of the request.\<close>

definition notFound :: "request \<Rightarrow> response" where
  "notFound req = \<lparr>code = num 404, payload = Json (JObj
     [(''status'', JStr ''error''), (''message'', JStr msg_no_route)])\<rparr>"

text \<open>\<open>new Error(m)\<close>\<close>

definition new_Error :: "string \<Rightarrow> jsval" where
  "new_Error m = JObj [(''message'', JStr m)]"

text \<open>
  \<open>res.status(c).json(b)\<close> in the error handler, where \<open>c\<close> is computed: the status
  is sent when it is an integer from 100 to 999; for any other value the call throws
  (in the framework, or in the HTTP layer under it). A version of the framework that
  first truncates a fraction or a numeric string differs there; no statement below has
  such a status.
\<close>

definition valid_status :: "jsval \<Rightarrow> bool" where
  "valid_status c = (case c of JNum (Fin r) \<Rightarrow> r \<in> \<int> \<and> 100 \<le> r \<and> r \<le> 999 | _ \<Rightarrow> False)"

text \<open>
  The error handler without its log call (lines 50 to 52 and 54 to 58 of \<open>app.js\<close>):
  the envelope it sends, or \<open>None\<close> when sending throws.
\<close>

definition error_envelope :: "jsval \<Rightarrow> response option" where
  "error_envelope err0 =
     (let err = (if \<not> truthy err0 then new_Error msg_unknown_error else err0);
          statusCode = or_else (jsprop err ''status'') (num 500)
      in if \<not> valid_status statusCode then None
         else Some \<lparr>code = statusCode, payload = Json (JObj
           [(''status'', JStr (if strict_eq statusCode (num 500) then ''error'' else ''failed'')),
            (''message'', or_else (jsprop err ''message'') (JStr msg_server_error))])\<rparr>)"

text \<open>
  The error handler: \<open>req.log.error(...)\<close> at line 53 throws a TypeError when
  \<open>req.log\<close> is unset, before anything is sent. \<open>None\<close> is a throw.
\<close>

definition errorHandler :: "jsval \<Rightarrow> request \<Rightarrow> response option" where
  "errorHandler err req = (if \<not> req_log req then None else error_envelope err)"

text \<open>
  When the error handler throws, no other error handler is mounted and the framework's
  final handler answers: the error thrown carries no status, so the status is 500, with
  the framework's error page.
\<close>

definition finalhandler :: response where
  "finalhandler = \<lparr>code = num 500, payload = ErrorPage\<rparr>"

definition or_final :: "response option \<Rightarrow> response" where
  "or_final r = (case r of Some x \<Rightarrow> x | None \<Rightarrow> finalhandler)"

text \<open>
  What the client receives from the outcome of a project handler. The project router is
  mounted after \<open>pino-http\<close>, so \<open>req.log\<close> is set when a project handler forwards
  an error.
\<close>

definition reply :: "outcome \<Rightarrow> response" where
  "reply out = (case out of Respond r \<Rightarrow> r | Next_err err \<Rightarrow> or_final (error_envelope err))"

definition pure_layer :: "(request \<Rightarrow> step) \<Rightarrow> db \<Rightarrow> request \<Rightarrow> db \<times> step" where
  "pure_layer m db req = (db, m req)"

fun dispatch :: "(db \<Rightarrow> request \<Rightarrow> db \<times> step) list \<Rightarrow> db \<Rightarrow> request \<Rightarrow> db \<times> step" where
  "dispatch [] db req = (db, Pass req)"
| "dispatch (l # ls) db req =
     (case l db req of
        (db', Pass req') \<Rightarrow> dispatch ls db' req'
      | (db', Answer r) \<Rightarrow> (db', Answer r)
      | (db', Raise e) \<Rightarrow> (db', Raise e))"

text \<open>
  The request as the layer that ended the dispatch received it (the last request, when
  every layer passes).
\<close>

fun raised_request :: "(db \<Rightarrow> request \<Rightarrow> db \<times> step) list \<Rightarrow> db \<Rightarrow> request \<Rightarrow> request" where
  "raised_request [] db req = req"
| "raised_request (l # ls) db req =
     (case l db req of
        (db', Pass req') \<Rightarrow> raised_request ls db' req'
      | (db', Answer r) \<Rightarrow> req
      | (db', Raise e) \<Rightarrow> req)"

definition layers :: "libs \<Rightarrow> (db \<Rightarrow> request \<Rightarrow> db \<times> step) list" where
  "layers L =
     [pure_layer (lib_cors L), pure_layer (lib_json L), pure_layer (lib_urlencoded L),
      pure_layer (lib_pinoHttp L), pure_layer (lib_static L),
      usersRouter L, projectRouter L, uploadRouter L,
      pure_layer (healthcheck L)]"

definition app :: "libs \<Rightarrow> db \<Rightarrow> request \<Rightarrow> db \<times> response" where
  "app L db req =
     (case dispatch (layers L) db req of
        (db', Pass req') \<Rightarrow> (db', notFound req')
      | (db', Answer r) \<Rightarrow> (db', r)
      | (db', Raise e) \<Rightarrow>
          (db', or_final (errorHandler e (raised_request (layers L) db req))))"

section \<open>Predicates of the statements\<close>

text \<open>
  An element of the \<open>plans\<close> array whose fields can be read and converted: it is
  neither undefined nor null, and \<open>Number\<close> throws neither on its amount nor, when
  its quantity is truthy, on its quantity.
\<close>

definition readable_plan :: "env \<Rightarrow> jsval \<Rightarrow> bool" where
  "readable_plan E plan =
     (\<not> nullish plan \<and> \<not> isl (Number E (jsprop plan ''amount''))
      \<and> (if truthy (jsprop plan ''quantity'') then \<not> isl (Number E (jsprop plan ''quantity''))
         else True))"

text \<open>
  The plans the specification describes for the array of an update, to be compared
  with what the handler stores: one plan for each element, the amount converted to a
  number, the quantity converted to a number or 0 when the given one is falsy, the
  other fields as given, linked to project \<open>i\<close>, with identifiers from \<open>n\<close> on.
\<close>

definition replaced_plan :: "env \<Rightarrow> int \<Rightarrow> int \<Rightarrow> jsval \<Rightarrow> plan" where
  "replaced_plan E n i plan =
     \<lparr>plan_name = jsprop plan ''plan_name'',
      amount = JNum (projr (Number E (jsprop plan ''amount''))),
      quantity = (if truthy (jsprop plan ''quantity'')
                  then JNum (projr (Number E (jsprop plan ''quantity''))) else num 0),
      feedback = jsprop plan ''feedback'', feedback_img = jsprop plan ''feedback_img'',
      delivery_date = jsprop plan ''delivery_date'', plan_id = n, project_id = i\<rparr>"

fun replaced_plans :: "env \<Rightarrow> int \<Rightarrow> int \<Rightarrow> jsval list \<Rightarrow> plan list" where
  "replaced_plans E n i [] = []"
| "replaced_plans E n i (e # es) = replaced_plan E n i e # replaced_plans E (n + 1) i es"

section \<open>Sample data\<close>

text \<open>
  A store with two users, one category and two projects: project 1 of user \<open>u1\<close>
  with the plans 2 and 1 (stored in that order), project 7 of user \<open>u2\<close> with plan 3.
\<close>

definition sample_project :: project where
  "sample_project = \<lparr>title = JStr ''Lamp'', summary = JStr ''A desk lamp'',
     total_amount = num 1000, start_time = JStr ''2025-01-01'', end_time = JStr ''2025-02-01'',
     cover = JStr ''lamp.png'', full_content = JStr ''About the lamp'',
     project_team = JStr ''Two people'', faq = JNull,
     category = JObj [(''id'', num 3)], user_id = JStr ''u1'',
     user = JObj [(''id'', JStr ''u1'')]\<rparr>"

definition other_project :: project where
  "other_project = \<lparr>title = JStr ''Kettle'', summary = JStr ''A kettle'',
     total_amount = num 500, start_time = JStr ''2025-03-01'', end_time = JStr ''2025-04-01'',
     cover = JStr ''kettle.png'', full_content = JStr ''About the kettle'',
     project_team = JStr ''One person'', faq = JArr [JStr ''When?''],
     category = JObj [(''id'', num 3)], user_id = JStr ''u2'',
     user = JObj [(''id'', JStr ''u2'')]\<rparr>"

definition sample_plan :: "int \<Rightarrow> int \<Rightarrow> string \<Rightarrow> plan" where
  "sample_plan n i name = \<lparr>plan_name = JStr name, amount = num 100, quantity = num 5,
     feedback = JStr ''A postcard'', feedback_img = JStr ''card.png'',
     delivery_date = JStr ''2025-06-01'', plan_id = n, project_id = i\<rparr>"

definition sample_db :: db where
  "sample_db = \<lparr>users = [JStr ''u1'' \<mapsto> [(''id'', JStr ''u1'')], JStr ''u2'' \<mapsto> [(''id'', JStr ''u2'')]],
     categories = [num 3 \<mapsto> [(''id'', num 3)]],
     projects = [1 \<mapsto> sample_project, 7 \<mapsto> other_project],
     next_project_id = 8,
     projectPlans = [sample_plan 2 1 ''Late'', sample_plan 3 7 ''Other'', sample_plan 1 1 ''Early''],
     next_plan_id = 4\<rparr>"

text \<open>
  An environment for the samples. Its \<open>Number\<close> is the built-in on undefined,
  null, booleans and numbers, and throws on an object (as the built-in does when
  the object's \<open>valueOf\<close> and \<open>toString\<close> are not callable); the samples convert
  nothing else. Its \<open>parseInt\<close> is the built-in on the path parameters of the
  samples: undefined, and strings of decimal digits.
\<close>

definition sample_Number :: "jsval \<Rightarrow> (string \<times> jsval) list + jsnum" where
  "sample_Number v =
     (case v of
        JUndefined \<Rightarrow> Inr NaN
      | JNull \<Rightarrow> Inr (Fin 0)
      | JBool b \<Rightarrow> Inr (Fin (if b then 1 else 0))
      | JNum n \<Rightarrow> Inr n
      | JStr s \<Rightarrow> Inr NaN
      | JArr xs \<Rightarrow> Inr NaN
      | JObj kvs \<Rightarrow> Inl [(''message'', JStr ''Cannot convert object to primitive value'')])"

definition digit :: "char \<Rightarrow> int option" where
  "digit c = map_of [(CHR ''0'', 0), (CHR ''1'', 1), (CHR ''2'', 2), (CHR ''3'', 3), (CHR ''4'', 4),
     (CHR ''5'', 5), (CHR ''6'', 6), (CHR ''7'', 7), (CHR ''8'', 8), (CHR ''9'', 9)] c"

fun digits :: "int \<Rightarrow> string \<Rightarrow> int" where
  "digits acc [] = acc"
| "digits acc (c # cs) = (case digit c of None \<Rightarrow> acc | Some d \<Rightarrow> digits (acc * 10 + d) cs)"

definition sample_parseInt :: "jsval \<Rightarrow> int option" where
  "sample_parseInt v =
     (case v of
        JStr (c # cs) \<Rightarrow> (case digit c of None \<Rightarrow> None | Some d \<Rightarrow> Some (digits d cs))
      | _ \<Rightarrow> None)"

definition sample_env :: env where
  "sample_env = \<lparr>Number = sample_Number, parseInt = sample_parseInt,
     TypeError = [(''message'', JStr ''Cannot read properties of undefined'')],
     rejects = (\<lambda>c. None),
     jwt_verify = (\<lambda>t. if t = ''good'' then Inr (JObj [(''id'', JStr ''u1'')])
                        else Inl [(''message'', JStr ''jwt malformed'')])\<rparr>"

text \<open>The same environment, with the insert of the new plans rejected.\<close>

definition failing_env :: env where
  "failing_env = sample_env\<lparr>rejects :=
     (\<lambda>c. if c = SavePlans then Some [(''message'', JStr ''insert failed'')] else None)\<rparr>"

definition sample_request :: "string \<Rightarrow> string \<Rightarrow> jsval \<Rightarrow> request" where
  "sample_request uid pid body = \<lparr>req_method = ''PATCH'', req_path = ''/api/v1/projects/'' @ pid,
     req_authorization = Some ''Bearer good'',
     req_params = JObj [(''project_id'', JStr pid), (''id'', JStr pid)],
     req_body = body, req_user = JObj [(''id'', JStr uid)], req_log = True\<rparr>"

text \<open>
  A store in which the owner column of project 1 holds \<open>u1\<close> while the owner
  relation loads as a user of id \<open>u9\<close>.
\<close>

definition mismatched_db :: db where
  "mismatched_db = sample_db\<lparr>projects :=
     [1 \<mapsto> sample_project\<lparr>user := JObj [(''id'', JStr ''u9'')]\<rparr>]\<rparr>"

text \<open>
  Libraries and routers that pass every request on; \<open>pino-http\<close> attaches the
  request's logger.
\<close>

definition pass_libs :: libs where
  "pass_libs = \<lparr>lib_cors = Pass, lib_json = Pass, lib_urlencoded = Pass,
     lib_pinoHttp = (\<lambda>req. Pass (req\<lparr>req_log := True\<rparr>)),
     lib_static = Pass,
     usersRouter = (\<lambda>db req. (db, Pass req)), projectRouter = (\<lambda>db req. (db, Pass req)),
     uploadRouter = (\<lambda>db req. (db, Pass req)),
     route_match = (\<lambda>pattern path. path = pattern)\<rparr>"

text \<open>
  The same, with the \<open>cors\<close> package as its default options make it: it answers a
  request of method OPTIONS itself, with status 204 and no body, and passes every
  other request on.
\<close>

definition cors_default :: "request \<Rightarrow> step" where
  "cors_default req =
     (if req_method req = ''OPTIONS'' then Answer \<lparr>code = num 204, payload = Text []\<rparr>
      else Pass req)"

definition preflight_libs :: libs where
  "preflight_libs = pass_libs\<lparr>lib_cors := cors_default\<rparr>"

text \<open>
  A request whose JSON body does not parse, as it arrives (nothing parsed, no logger
  yet), and the libraries on it: \<open>express.json\<close> raises a syntax error tagged with
  status 400.
\<close>

definition parse_error :: jsval where
  "parse_error = JObj [(''message'', JStr ''Unexpected end of JSON input''), (''status'', num 400)]"

definition malformed_request :: request where
  "malformed_request = \<lparr>req_method = ''POST'', req_path = ''/api/v1/projects'',
     req_authorization = Some ''Bearer good'', req_params = JObj [],
     req_body = JUndefined, req_user = JUndefined, req_log = False\<rparr>"

definition malformed_json_libs :: libs where
  "malformed_json_libs = pass_libs\<lparr>lib_json := (\<lambda>req. Raise parse_error)\<rparr>"

section \<open>Auxiliary facts\<close>

lemma await_None: "rejects E c = None \<Longrightarrow> await E c db k = k"
  by (simp add: await_def)

lemma await_Some: "rejects E c = Some e \<Longrightarrow> await E c db k = (db, Inl (JObj e))"
  by (simp add: await_def)

lemma attempt_simps:
  "attempt (Inr v) db k = k v"
  "attempt (Inl e) db k = (db, Inl e)"
  by (simp_all add: attempt_def)

lemma replacePlans_projects: "projects (fst (replacePlans E db i body)) = projects db"
  by (auto simp: replacePlans_def await_def attempt_def delete_plans_def save_plans_def Let_def
      split: jsval.splits option.splits sum.splits)

lemma replacePlans_projects_eq:
  "replacePlans E db i body = (db1, r) \<Longrightarrow> projects db1 = projects db"
  using replacePlans_projects [of E db i body] by simp

lemma findOwned_Some:
  "findOwned db pid uid = Some (i, p) \<Longrightarrow> projects db i = Some p \<and> pid = Some i \<and> user_id p = uid"
  by (auto simp: findOwned_def find_project_def split: option.splits if_splits)

text \<open>What a run of the update leaves in the projects table.\<close>

lemma updateProject_try_failed:
  assumes "updateProject_try E db req = (db', res)" and "\<forall>r. res \<noteq> Inr (Respond r)"
  shows "projects db' = projects db"
  using assms
  by (auto simp: updateProject_try_def Let_def attempt_def await_def status_json_def
      split: option.splits sum.splits prod.splits if_splits
      dest!: replacePlans_projects_eq)

lemma updateProject_try_answered:
  assumes "updateProject_try E db req = (db', Inr (Respond r))"
  shows "\<exists>uid i p p'. findOwned db (parseInt E (jsprop (req_params req) ''project_id'')) uid = Some (i, p)
        \<and> assign_fields E (req_body req) p = Inr p'
        \<and> projects db' = (projects db)(i \<mapsto> p')
        \<and> Respond r = status_json 200 (JObj
           [(''status'', JBool True),
            (''data'', JObj [(''project_id'', num (of_int i))])])"
  using assms
  apply (auto simp: updateProject_try_def Let_def attempt_def await_def
      split: option.splits sum.splits prod.splits if_splits
      dest!: replacePlans_projects_eq)
  apply metis
  done

lemma updateProject_try_projects:
  assumes "updateProject_try E db req = (db', res)"
  shows "(projects db' = projects db \<and> (\<forall>r. res \<noteq> Inr (Respond r)))
   \<or> (\<exists>uid i p p'. findOwned db (parseInt E (jsprop (req_params req) ''project_id'')) uid = Some (i, p)
        \<and> assign_fields E (req_body req) p = Inr p'
        \<and> projects db' = (projects db)(i \<mapsto> p')
        \<and> res = Inr (status_json 200 (JObj
           [(''status'', JBool True),
            (''data'', JObj [(''project_id'', num (of_int i))])])))"
proof (cases "\<forall>r. res \<noteq> Inr (Respond r)")
  case True
  with updateProject_try_failed [OF assms] show ?thesis by simp
next
  case False
  then obtain r where r: "res = Inr (Respond r)" by blast
  from updateProject_try_answered [OF assms [unfolded r]] r show ?thesis by auto
qed

lemma updateProject_projects:
  assumes "updateProject E db req = (db', out)"
  shows "(projects db' = projects db \<and> (\<forall>r. out \<noteq> Respond r))
   \<or> (\<exists>uid i p p'. findOwned db (parseInt E (jsprop (req_params req) ''project_id'')) uid = Some (i, p)
        \<and> assign_fields E (req_body req) p = Inr p'
        \<and> projects db' = (projects db)(i \<mapsto> p')
        \<and> out = status_json 200 (JObj
           [(''status'', JBool True),
            (''data'', JObj [(''project_id'', num (of_int i))])]))"
proof (cases "updateProject_try E db req")
  case (Pair db1 res)
  from updateProject_try_projects [OF Pair] Pair assms show ?thesis
    by (cases res) (auto simp: updateProject_def)
qed

lemma assign_fields_Inr:
  assumes "assign_fields E body p = Inr p'"
  shows "category p' = category p" and "user p' = user p" and "user_id p' = user_id p"
    and "title p' = assign (jsprop body ''title'') (title p)"
    and "summary p' = assign (jsprop body ''summary'') (summary p)"
    and "assign_number E (jsprop body ''total_amount'') (total_amount p) = Inr (total_amount p')"
    and "start_time p' = assign (jsprop body ''start_time'') (start_time p)"
    and "end_time p' = assign (jsprop body ''end_time'') (end_time p)"
    and "cover p' = assign (jsprop body ''cover'') (cover p)"
    and "full_content p' = assign (jsprop body ''full_content'') (full_content p)"
    and "project_team p' = assign (jsprop body ''project_team'') (project_team p)"
    and "faq p' = assign (jsprop body ''faq'') (faq p)"
  using assms by (auto simp: assign_fields_def split: sum.splits)

lemma assign_absent: "assign JUndefined old = old"
  by (simp add: assign_def)

lemma assign_number_absent: "assign_number E JUndefined old = Inr v \<Longrightarrow> v = old"
  by (simp add: assign_number_def)

lemma assign_number_present:
  "x \<noteq> JUndefined \<Longrightarrow> assign_number E x old = Inr v \<Longrightarrow> \<exists>n. Number E x = Inr n \<and> v = JNum n"
  by (auto simp: assign_number_def split: sum.splits)

lemmas sample_defs = sample_env_def sample_db_def sample_request_def sample_project_def
  other_project_def sample_plan_def sample_Number_def sample_parseInt_def digit_def failing_env_def
  mismatched_db_def

lemmas handler_defs = updateProject_def updateProject_try_def attempt_def await_def getProp_def
  findOwned_def find_project_def assign_fields_def assign_def assign_number_def replacePlans_def
  delete_plans_def save_plans_def create_plan_def status_json_def appError_def Let_def

lemma updateProject_field_frame:
  assumes sel: "\<And>p p'. assign_fields E (req_body req) p = Inr p' \<Longrightarrow> f p' = f p"
  shows "map_option f (projects (fst (updateProject E db req)) j) = map_option f (projects db j)"
proof (cases "updateProject E db req")
  case (Pair db' out)
  from updateProject_projects [OF Pair] show ?thesis
  proof (elim disjE exE conjE)
    assume "projects db' = projects db"
    with Pair show ?thesis by simp
  next
    fix uid i p p'
    assume f: "findOwned db (parseInt E (jsprop (req_params req) ''project_id'')) uid = Some (i, p)"
      and a: "assign_fields E (req_body req) p = Inr p'"
      and pr: "projects db' = (projects db)(i \<mapsto> p')"
    from findOwned_Some [OF f] have "projects db i = Some p" by simp
    with pr sel [OF a] Pair show ?thesis by simp
  qed
qed

lemma updateProject_total_amount:
  assumes run: "updateProject E db req = (db', Respond r)"
    and present: "jsprop (req_body req) ''total_amount'' \<noteq> JUndefined"
  shows "\<exists>i n. parseInt E (jsprop (req_params req) ''project_id'') = Some i
           \<and> Number E (jsprop (req_body req) ''total_amount'') = Inr n
           \<and> map_option total_amount (projects db' i) = Some (JNum n)"
proof -
  from updateProject_projects [OF run]
  obtain uid i p p' where f: "findOwned db (parseInt E (jsprop (req_params req) ''project_id'')) uid = Some (i, p)"
      and a: "assign_fields E (req_body req) p = Inr p'"
      and pr: "projects db' = (projects db)(i \<mapsto> p')"
    by blast
  from assign_number_present [OF present assign_fields_Inr(6) [OF a]]
  obtain n where "Number E (jsprop (req_body req) ''total_amount'') = Inr n" "total_amount p' = JNum n"
    by blast
  with findOwned_Some [OF f] pr show ?thesis by simp
qed

lemma create_plan_readable:
  assumes "readable_plan E e"
  shows "\<exists>d. create_plan E e = Inr d \<and> insert_plans n i [d] = [replaced_plan E n i e]"
proof -
  from assms have nn: "\<not> nullish e"
    and a: "Number E (jsprop e ''amount'') = Inr (projr (Number E (jsprop e ''amount'')))"
    by (simp_all add: readable_plan_def)
  show ?thesis
  proof (cases "truthy (jsprop e ''quantity'')")
    case True
    with assms have q: "Number E (jsprop e ''quantity'') = Inr (projr (Number E (jsprop e ''quantity'')))"
      by (simp add: readable_plan_def)
    from nn True show ?thesis
      unfolding create_plan_def replaced_plan_def
      by (subst a, subst q) simp
  next
    case False
    with nn show ?thesis
      unfolding create_plan_def replaced_plan_def
      by (subst a) simp
  qed
qed

lemma insert_plans_Cons:
  "insert_plans n i (d # ds) = insert_plans n i [d] @ insert_plans (n + 1) i ds"
  by simp

lemma create_plans_readable:
  "list_all (readable_plan E) es \<Longrightarrow>
     \<exists>ds. create_plans E es = Inr ds \<and> length ds = length es
        \<and> (\<forall>n. insert_plans n i ds = replaced_plans E n i es)"
proof (induction es)
  case Nil
  then show ?case by simp
next
  case (Cons e es)
  then obtain ds where ds: "create_plans E es = Inr ds" "length ds = length es"
    "\<forall>n. insert_plans n i ds = replaced_plans E n i es" by auto
  from Cons.prems have "readable_plan E e" by simp
  then have "\<forall>n. \<exists>d. create_plan E e = Inr d \<and> insert_plans n i [d] = [replaced_plan E n i e]"
    using create_plan_readable by blast
  then obtain d where d: "create_plan E e = Inr d"
    and d': "\<forall>n. insert_plans n i [d] = [replaced_plan E n i e]"
    by (metis sum.inject(2))
  have "\<forall>n. insert_plans n i (d # ds) = replaced_plans E n i (e # es)"
  proof
    fix n
    show "insert_plans n i (d # ds) = replaced_plans E n i (e # es)"
      using d' [rule_format, of n] ds(3) [rule_format, of "n + 1"]
      by (subst insert_plans_Cons) simp
  qed
  with d ds show ?case by simp
qed

lemma project_id_replaced_plans:
  "pl \<in> set (replaced_plans E n i es) \<Longrightarrow> project_id pl = i"
  by (induction es arbitrary: n) (auto simp: replaced_plan_def)

lemma length_replaced_plans: "length (replaced_plans E n i es) = length es"
  by (induction es arbitrary: n) simp_all

lemma filter_replaced_plans:
  "filter (\<lambda>pl. project_id pl = k) (replaced_plans E n i es)
     = (if k = i then replaced_plans E n i es else [])"
  by (auto simp: filter_empty_conv filter_id_conv dest: project_id_replaced_plans)

lemma plans_of_replaced:
  "plans_of (db\<lparr>projectPlans :=
       filter (\<lambda>pl. project_id pl \<noteq> i) (projectPlans db) @ replaced_plans E n i es,
       next_plan_id := m\<rparr>) k
     = (if k = i then replaced_plans E n i es else plans_of db k)"
proof -
  have "filter (\<lambda>pl. project_id pl = k) (filter (\<lambda>pl. project_id pl \<noteq> i) (projectPlans db))
          = (if k = i then [] else filter (\<lambda>pl. project_id pl = k) (projectPlans db))"
    by (auto simp: filter_empty_conv intro: filter_cong)
  then show ?thesis
    by (simp add: plans_of_def filter_replaced_plans)
qed

lemma plans_of_projects_update [simp]: "plans_of (db\<lparr>projects := ps\<rparr>) k = plans_of db k"
  by (simp add: plans_of_def)

lemma replacePlans_readable:
  assumes "jsprop body ''plans'' = JArr elems"
    and "rejects E DeletePlans = None" and "rejects E SavePlans = None"
    and "list_all (readable_plan E) elems"
  shows "\<exists>db1. replacePlans E db i body = (db1, Inr ())
     \<and> (\<forall>k. plans_of db1 k
           = (if k = i then replaced_plans E (next_plan_id db) i elems else plans_of db k))"
proof -
  from create_plans_readable [OF assms(4), of i] obtain ds
    where ds: "create_plans E elems = Inr ds"
      and ins: "\<forall>n. insert_plans n i ds = replaced_plans E n i elems" by blast
  have "replacePlans E db i body = (save_plans (delete_plans db i) i ds, Inr ())"
    using assms(1-3) ds by (simp add: replacePlans_def await_def attempt_def)
  moreover have "\<forall>k. plans_of (save_plans (delete_plans db i) i ds) k
           = (if k = i then replaced_plans E (next_plan_id db) i elems else plans_of db k)"
    using ins plans_of_replaced [where db = db and i = i and E = E and n = "next_plan_id db" and es = elems]
    by (simp add: save_plans_def delete_plans_def)
  ultimately show ?thesis by blast
qed

lemma assign_fields_total:
  assumes "jsprop body ''total_amount'' = JUndefined \<or> \<not> isl (Number E (jsprop body ''total_amount''))"
  shows "\<exists>p'. assign_fields E body p = Inr p'"
  using assms by (auto simp: assign_fields_def assign_number_def split: sum.splits)


lemma mset_js_insert: "mset (js_insert cmp x xs) = add_mset x (mset xs)"
  by (induction xs) simp_all

lemma mset_js_sort: "mset (js_sort cmp xs) = mset xs"
  by (induction xs) (simp_all add: mset_js_insert)

lemma set_js_insert: "set (js_insert cmp x xs) = insert x (set xs)"
  using mset_js_insert [of cmp x xs] by (metis set_mset_add_mset_insert set_mset_mset)

lemma sorted_js_insert:
  "sorted (map plan_id xs) \<Longrightarrow>
     sorted (map plan_id (js_insert (\<lambda>a b. plan_id a - plan_id b) x xs))"
  by (induction xs) (auto simp: set_js_insert)

lemma sorted_js_sort: "sorted (map plan_id (js_sort (\<lambda>a b. plan_id a - plan_id b) xs))"
  by (induction xs) (simp_all add: sorted_js_insert)

lemma code_reply_appError:
  "r \<in> \<int> \<Longrightarrow> 100 \<le> r \<Longrightarrow> r \<le> 999 \<Longrightarrow> code (reply (Next_err (appError r m))) = num r"
  by (simp add: reply_def error_envelope_def or_final_def valid_status_def appError_def
      or_else_def Let_def)

lemma createProjectPlan_plans:
  "set (projectPlans (fst (createProjectPlan E db req)))
     \<subseteq> set (projectPlans db) \<union> {pl. projects db (project_id pl) \<noteq> None}"
  by (auto simp: createProjectPlan_def createProjectPlan_try_def Let_def attempt_def await_def
      find_project_def split: sum.splits option.splits prod.splits if_splits)

lemma strict_eq_num: "strict_eq x (num r) \<longleftrightarrow> x = num r"
proof (cases x)
  case (JNum n)
  then show ?thesis by (cases n) auto
qed auto

lemma checkMissing_empty:
  "\<not> nullish body \<Longrightarrow> \<forall>f\<in>set requiredFields. truthy (jsprop body f) \<Longrightarrow>
     checkMissingProjectFields E body = Inr []"
  by (simp add: checkMissingProjectFields_def filter_empty_conv)

lemma checkMissing_nonempty:
  "\<not> nullish body \<Longrightarrow> \<exists>f\<in>set requiredFields. \<not> truthy (jsprop body f) \<Longrightarrow>
     \<exists>ms. checkMissingProjectFields E body = Inr ms \<and> ms \<noteq> []
        \<and> ms = filter (\<lambda>f. \<not> truthy (jsprop body f)) requiredFields"
  by (simp add: checkMissingProjectFields_def filter_empty_conv)

lemma errorHandler_envelope:
  assumes "req_log req" and "truthy err"
    and "valid_status (if truthy (jsprop err ''status'') then jsprop err ''status'' else num 500)"
  shows "errorHandler err req = Some
           \<lparr>code = (if truthy (jsprop err ''status'') then jsprop err ''status'' else num 500),
            payload = Json (JObj
              [(''status'', JStr (if truthy (jsprop err ''status'') \<and> jsprop err ''status'' \<noteq> num 500
                                  then ''failed'' else ''error'')),
               (''message'', if truthy (jsprop err ''message'') then jsprop err ''message''
                             else JStr msg_server_error)])\<rparr>"
  using assms
  by (auto simp: errorHandler_def error_envelope_def Let_def or_else_def strict_eq_num)

section \<open>The claims\<close>

subsection \<open>C1: an update by someone who is not the owner\<close>

text \<open>
  C1 as stated fails: user \<open>u2\<close> asks to update project 1, whose owner column and
  owner relation both say \<open>u1\<close>. The lookup filters on the owner, finds nothing, and the
  handler forwards the 400 error "proposal not found"; the status is 400, not 403.
\<close>

theorem C1_counterexample:
  "getProp sample_env (req_user (sample_request ''u2'' ''1'' (JObj [(''title'', JStr ''Mine'')]))) ''id''
      = Inr (JStr ''u2'')
   \<and> map_option user_id (projects sample_db 1) = Some (JStr ''u1'')
   \<and> map_option (\<lambda>p. jsprop (user p) ''id'') (projects sample_db 1) = Some (JStr ''u1'')
   \<and> updateProject sample_env sample_db (sample_request ''u2'' ''1'' (JObj [(''title'', JStr ''Mine'')]))
      = (sample_db, Next_err (appError 400 (JStr msg_proposal_not_found)))
   \<and> code (reply (snd (updateProject sample_env sample_db
        (sample_request ''u2'' ''1'' (JObj [(''title'', JStr ''Mine'')]))))) = num 400
   \<and> num 400 \<noteq> num 403"
  by (simp add: sample_defs handler_defs reply_def error_envelope_def or_final_def valid_status_def
      or_else_def)

text \<open>
  C1, amended: for a request by a user with an id, on an existing project, whose lookup
  does not reject: if the owner column of the project differs from the user's id, the
  handler forwards the 400 error "proposal not found" and leaves the store as it was; it
  forwards the 403 error when the lookup finds the project under the user's id and the
  loaded owner relation carries another id, and then too the store is left as it was. The
  error handler turns the two errors into the statuses 400 and 403.
\<close>

theorem C1_non_owner_rejected:
  assumes "getProp E (req_user req) ''id'' = Inr uid"
    and "\<not> nullish uid"
    and "rejects E FindOwnedProject = None"
    and "parseInt E (jsprop (req_params req) ''project_id'') = Some i"
    and "projects db i = Some p"
  shows "(user_id p \<noteq> uid \<longrightarrow>
            updateProject E db req = (db, Next_err (appError 400 (JStr msg_proposal_not_found))))
       \<and> (user_id p = uid \<and> getProp E (user p) ''id'' = Inr owner \<and> \<not> strict_eq owner uid \<longrightarrow>
            updateProject E db req = (db, Next_err (appError 403 (JStr msg_no_permission))))
       \<and> code (reply (Next_err (appError 400 (JStr msg_proposal_not_found)))) = num 400
       \<and> code (reply (Next_err (appError 403 (JStr msg_no_permission)))) = num 403"
  using assms
  by (simp add: updateProject_def updateProject_try_def Let_def attempt_def await_def
      findOwned_def find_project_def reply_def error_envelope_def or_final_def valid_status_def
      appError_def or_else_def)

text \<open>
  The two cases of C1 on the samples: \<open>u2\<close> on project 1 of \<open>u1\<close>, and \<open>u1\<close> on the
  store whose owner column and owner relation disagree.
\<close>

theorem C1_witness:
  "updateProject sample_env sample_db (sample_request ''u2'' ''1'' (JObj [(''title'', JStr ''Mine'')]))
      = (sample_db, Next_err (appError 400 (JStr msg_proposal_not_found)))
   \<and> updateProject sample_env mismatched_db (sample_request ''u1'' ''1'' (JObj [(''title'', JStr ''Mine'')]))
      = (mismatched_db, Next_err (appError 403 (JStr msg_no_permission)))"
  using C1_non_owner_rejected [where E = sample_env and db = sample_db and i = 1
      and req = "sample_request ''u2'' ''1'' (JObj [(''title'', JStr ''Mine'')])"
      and uid = "JStr ''u2''" and p = sample_project]
    C1_non_owner_rejected [where E = sample_env and db = mismatched_db and i = 1
      and req = "sample_request ''u1'' ''1'' (JObj [(''title'', JStr ''Mine'')])"
      and uid = "JStr ''u1''" and p = "sample_project\<lparr>user := JObj [(''id'', JStr ''u9'')]\<rparr>"
      and owner = "JStr ''u9''"]
  by (simp add: sample_defs getProp_def)

subsection \<open>C2: replacing the plans\<close>

text \<open>
  C2 as stated fails: the owner sends \<open>plans: [null]\<close>. The two plans of project 1 are
  deleted, reading \<open>plan.plan_name\<close> on the null element throws, and no plan is inserted:
  one element, no new plan.
\<close>

theorem C2_counterexample:
  "jsprop (req_body (sample_request ''u1'' ''1'' (JObj [(''plans'', JArr [JNull])]))) ''plans''
      = JArr [JNull]
   \<and> plans_of sample_db 1 = [sample_plan 2 1 ''Late'', sample_plan 1 1 ''Early'']
   \<and> plans_of (fst (updateProject sample_env sample_db
        (sample_request ''u1'' ''1'' (JObj [(''plans'', JArr [JNull])])))) 1 = []
   \<and> snd (updateProject sample_env sample_db
        (sample_request ''u1'' ''1'' (JObj [(''plans'', JArr [JNull])])))
      = Next_err (JObj (TypeError sample_env))"
  by (simp add: sample_defs handler_defs plans_of_def)

text \<open>
  C2, amended: for an update by the owner (the project exists, its owner column and its
  loaded owner relation carry the requester's id) whose \<open>total_amount\<close>, if present, converts
  without throwing, whose body has a \<open>plans\<close> array in which every element is neither
  undefined nor null and converts without throwing, and whose delete and insert of plans
  do not reject: afterwards the plans of the project are exactly one new plan for each element
  of the array, in order, with the amount converted by \<open>Number\<close> and the quantity converted
  by \<open>Number\<close>, or 0 when the given quantity is falsy; every plan the project had before
  is gone, and the plans of the other projects are as before.
\<close>

theorem C2_plans_replaced:
  assumes "getProp E (req_user req) ''id'' = Inr uid"
    and "rejects E FindOwnedProject = None"
    and "parseInt E (jsprop (req_params req) ''project_id'') = Some i"
    and "projects db i = Some p"
    and "user_id p = uid"
    and "getProp E (user p) ''id'' = Inr owner"
    and "strict_eq owner uid"
    and "jsprop (req_body req) ''total_amount'' = JUndefined
          \<or> \<not> isl (Number E (jsprop (req_body req) ''total_amount''))"
    and "jsprop (req_body req) ''plans'' = JArr elems"
    and "list_all (readable_plan E) elems"
    and "rejects E DeletePlans = None"
    and "rejects E SavePlans = None"
  shows "plans_of (fst (updateProject E db req)) i = replaced_plans E (next_plan_id db) i elems
       \<and> length (plans_of (fst (updateProject E db req)) i) = length elems
       \<and> (k \<noteq> i \<longrightarrow> plans_of (fst (updateProject E db req)) k = plans_of db k)"
proof -
  from assms(9) have body: "\<not> nullish (req_body req)"
    by (cases "req_body req") auto
  from assign_fields_total [OF assms(8)] obtain p' where p': "assign_fields E (req_body req) p = Inr p'"
    by blast
  from replacePlans_readable [OF assms(9) assms(11) assms(12) assms(10)]
  obtain db1 where db1: "replacePlans E db i (req_body req) = (db1, Inr ())"
    and plans: "\<forall>k. plans_of db1 k
           = (if k = i then replaced_plans E (next_plan_id db) i elems else plans_of db k)"
    by blast
  have found: "findOwned db (parseInt E (jsprop (req_params req) ''project_id'')) uid = Some (i, p)"
    using assms(3-5) by (simp add: findOwned_def find_project_def)
  have "\<forall>k. plans_of (fst (updateProject E db req)) k = plans_of db1 k"
    using assms(1,2,6,7) found body p' db1
    by (simp add: updateProject_def updateProject_try_def Let_def attempt_def await_def
        split: option.splits)
  with plans show ?thesis by (simp add: length_replaced_plans)
qed

text \<open>
  C2 on the samples: two new plans replace the two old plans of project 1; the first has no
  quantity and gets 0; the plan of project 7 stays.
\<close>

theorem C2_witness:
  "list_all (readable_plan sample_env)
      [JObj [(''plan_name'', JStr ''Gold''), (''amount'', num 300)],
       JObj [(''plan_name'', JStr ''Silver''), (''amount'', num 200), (''quantity'', num 10)]]
   \<and> plans_of (fst (updateProject sample_env sample_db (sample_request ''u1'' ''1''
        (JObj [(''plans'', JArr
          [JObj [(''plan_name'', JStr ''Gold''), (''amount'', num 300)],
           JObj [(''plan_name'', JStr ''Silver''), (''amount'', num 200), (''quantity'', num 10)]])])))) 1
      = [\<lparr>plan_name = JStr ''Gold'', amount = num 300, quantity = num 0,
           feedback = JUndefined, feedback_img = JUndefined, delivery_date = JUndefined,
           plan_id = 4, project_id = 1\<rparr>,
         \<lparr>plan_name = JStr ''Silver'', amount = num 200, quantity = num 10,
           feedback = JUndefined, feedback_img = JUndefined, delivery_date = JUndefined,
           plan_id = 5, project_id = 1\<rparr>]
   \<and> plans_of (fst (updateProject sample_env sample_db (sample_request ''u1'' ''1''
        (JObj [(''plans'', JArr
          [JObj [(''plan_name'', JStr ''Gold''), (''amount'', num 300)],
           JObj [(''plan_name'', JStr ''Silver''), (''amount'', num 200), (''quantity'', num 10)]])])))) 7
      = [sample_plan 3 7 ''Other'']"
  using C2_plans_replaced [where E = sample_env and db = sample_db and i = 1 and k = 7
      and uid = "JStr ''u1''" and owner = "JStr ''u1''" and p = sample_project
      and elems = "[JObj [(''plan_name'', JStr ''Gold''), (''amount'', num 300)],
           JObj [(''plan_name'', JStr ''Silver''), (''amount'', num 200), (''quantity'', num 10)]]"
      and req = "sample_request ''u1'' ''1''
        (JObj [(''plans'', JArr
          [JObj [(''plan_name'', JStr ''Gold''), (''amount'', num 300)],
           JObj [(''plan_name'', JStr ''Silver''), (''amount'', num 200), (''quantity'', num 10)]])])"]
  by (simp add: sample_defs getProp_def readable_plan_def replaced_plan_def plans_of_def)

subsection \<open>C3: partial update of the scalar fields\<close>

text \<open>
  C3: whatever the update request, a scalar field (title, summary, total_amount,
  start_time, end_time, cover, full_content, project_team, faq) whose key is absent from the
  body has afterwards the value it had before, in every project; and when the handler answers
  (which it does only with 200, after the save) and \<open>total_amount\<close> is present, the stored
  \<open>total_amount\<close> of the project is the number \<open>Number\<close> gave.
\<close>

theorem C3_partial_update:
  "(jsprop (req_body req) ''title'' = JUndefined \<longrightarrow>
      map_option title (projects (fst (updateProject E db req)) j) = map_option title (projects db j))
   \<and> (jsprop (req_body req) ''summary'' = JUndefined \<longrightarrow>
      map_option summary (projects (fst (updateProject E db req)) j) = map_option summary (projects db j))
   \<and> (jsprop (req_body req) ''total_amount'' = JUndefined \<longrightarrow>
      map_option total_amount (projects (fst (updateProject E db req)) j)
        = map_option total_amount (projects db j))
   \<and> (jsprop (req_body req) ''start_time'' = JUndefined \<longrightarrow>
      map_option start_time (projects (fst (updateProject E db req)) j)
        = map_option start_time (projects db j))
   \<and> (jsprop (req_body req) ''end_time'' = JUndefined \<longrightarrow>
      map_option end_time (projects (fst (updateProject E db req)) j)
        = map_option end_time (projects db j))
   \<and> (jsprop (req_body req) ''cover'' = JUndefined \<longrightarrow>
      map_option cover (projects (fst (updateProject E db req)) j) = map_option cover (projects db j))
   \<and> (jsprop (req_body req) ''full_content'' = JUndefined \<longrightarrow>
      map_option full_content (projects (fst (updateProject E db req)) j)
        = map_option full_content (projects db j))
   \<and> (jsprop (req_body req) ''project_team'' = JUndefined \<longrightarrow>
      map_option project_team (projects (fst (updateProject E db req)) j)
        = map_option project_team (projects db j))
   \<and> (jsprop (req_body req) ''faq'' = JUndefined \<longrightarrow>
      map_option faq (projects (fst (updateProject E db req)) j) = map_option faq (projects db j))
   \<and> (snd (updateProject E db req) = Respond r
        \<and> jsprop (req_body req) ''total_amount'' \<noteq> JUndefined \<longrightarrow>
      (\<exists>i n. parseInt E (jsprop (req_params req) ''project_id'') = Some i
           \<and> Number E (jsprop (req_body req) ''total_amount'') = Inr n
           \<and> map_option total_amount (projects (fst (updateProject E db req)) i) = Some (JNum n)))"
proof (intro conjI impI)
  assume "jsprop (req_body req) ''title'' = JUndefined"
  then show "map_option title (projects (fst (updateProject E db req)) j) = map_option title (projects db j)"
    by (intro updateProject_field_frame) (simp add: assign_fields_Inr(4) assign_absent)
next
  assume "jsprop (req_body req) ''summary'' = JUndefined"
  then show "map_option summary (projects (fst (updateProject E db req)) j) = map_option summary (projects db j)"
    by (intro updateProject_field_frame) (simp add: assign_fields_Inr(5) assign_absent)
next
  assume absent: "jsprop (req_body req) ''total_amount'' = JUndefined"
  show "map_option total_amount (projects (fst (updateProject E db req)) j)
        = map_option total_amount (projects db j)"
  proof (rule updateProject_field_frame)
    fix p p' assume "assign_fields E (req_body req) p = Inr p'"
    from assign_fields_Inr(6) [OF this] absent show "total_amount p' = total_amount p"
      by (simp add: assign_number_absent)
  qed
next
  assume "jsprop (req_body req) ''start_time'' = JUndefined"
  then show "map_option start_time (projects (fst (updateProject E db req)) j)
        = map_option start_time (projects db j)"
    by (intro updateProject_field_frame) (simp add: assign_fields_Inr(7) assign_absent)
next
  assume "jsprop (req_body req) ''end_time'' = JUndefined"
  then show "map_option end_time (projects (fst (updateProject E db req)) j)
        = map_option end_time (projects db j)"
    by (intro updateProject_field_frame) (simp add: assign_fields_Inr(8) assign_absent)
next
  assume "jsprop (req_body req) ''cover'' = JUndefined"
  then show "map_option cover (projects (fst (updateProject E db req)) j) = map_option cover (projects db j)"
    by (intro updateProject_field_frame) (simp add: assign_fields_Inr(9) assign_absent)
next
  assume "jsprop (req_body req) ''full_content'' = JUndefined"
  then show "map_option full_content (projects (fst (updateProject E db req)) j)
        = map_option full_content (projects db j)"
    by (intro updateProject_field_frame) (simp add: assign_fields_Inr(10) assign_absent)
next
  assume "jsprop (req_body req) ''project_team'' = JUndefined"
  then show "map_option project_team (projects (fst (updateProject E db req)) j)
        = map_option project_team (projects db j)"
    by (intro updateProject_field_frame) (simp add: assign_fields_Inr(11) assign_absent)
next
  assume "jsprop (req_body req) ''faq'' = JUndefined"
  then show "map_option faq (projects (fst (updateProject E db req)) j) = map_option faq (projects db j)"
    by (intro updateProject_field_frame) (simp add: assign_fields_Inr(12) assign_absent)
next
  assume "snd (updateProject E db req) = Respond r
        \<and> jsprop (req_body req) ''total_amount'' \<noteq> JUndefined"
  then have run: "updateProject E db req = (fst (updateProject E db req), Respond r)"
    and present: "jsprop (req_body req) ''total_amount'' \<noteq> JUndefined"
    by (simp_all add: prod_eq_iff)
  from updateProject_total_amount [OF run present]
  show "\<exists>i n. parseInt E (jsprop (req_params req) ''project_id'') = Some i
           \<and> Number E (jsprop (req_body req) ''total_amount'') = Inr n
           \<and> map_option total_amount (projects (fst (updateProject E db req)) i) = Some (JNum n)" .
qed

text \<open>
  C3 on the samples: the owner sends a title and a total amount; the summary is absent and
  stays, the title and the amount are stored.
\<close>

theorem C3_witness:
  "jsprop (JObj [(''title'', JStr ''Torch''), (''total_amount'', num 2000)]) ''summary'' = JUndefined
   \<and> snd (updateProject sample_env sample_db (sample_request ''u1'' ''1''
        (JObj [(''title'', JStr ''Torch''), (''total_amount'', num 2000)])))
      = status_json 200 (JObj [(''status'', JBool True), (''data'', JObj [(''project_id'', num 1)])])
   \<and> map_option summary (projects (fst (updateProject sample_env sample_db (sample_request ''u1'' ''1''
        (JObj [(''title'', JStr ''Torch''), (''total_amount'', num 2000)])))) 1)
      = Some (JStr ''A desk lamp'')
   \<and> map_option title (projects (fst (updateProject sample_env sample_db (sample_request ''u1'' ''1''
        (JObj [(''title'', JStr ''Torch''), (''total_amount'', num 2000)])))) 1)
      = Some (JStr ''Torch'')
   \<and> map_option total_amount (projects (fst (updateProject sample_env sample_db (sample_request ''u1'' ''1''
        (JObj [(''title'', JStr ''Torch''), (''total_amount'', num 2000)])))) 1)
      = Some (num 2000)"
  using C3_partial_update [where E = sample_env and db = sample_db and j = 1
      and req = "sample_request ''u1'' ''1'' (JObj [(''title'', JStr ''Torch''), (''total_amount'', num 2000)])"
      and r = "\<lparr>code = num 200, payload = Json (JObj [(''status'', JBool True), (''data'', JObj [(''project_id'', num 1)])])\<rparr>"]
  by (simp add: sample_defs handler_defs)

subsection \<open>C4: the required fields of a new project\<close>

text \<open>
  C4 as stated fails: all ten fields are present in the body, \<open>total_amount\<close> is 0, and
  the handler answers 400 and lists \<open>total_amount\<close> as missing: the check tests the value
  (its truthiness), not the presence.
\<close>

theorem C4_counterexample:
  "list_all (\<lambda>f. jsprop (JObj [(''title'', JStr ''Lamp''), (''summary'', JStr ''A desk lamp''),
        (''category_id'', num 3), (''total_amount'', num 0), (''start_time'', JStr ''2025-01-01''),
        (''end_time'', JStr ''2025-02-01''), (''cover'', JStr ''lamp.png''),
        (''full_content'', JStr ''About the lamp''), (''project_team'', JStr ''Two people''),
        (''faq'', JArr [])]) f \<noteq> JUndefined) requiredFields
   \<and> createProject sample_env sample_db (sample_request ''u1'' ''1''
       (JObj [(''title'', JStr ''Lamp''), (''summary'', JStr ''A desk lamp''),
        (''category_id'', num 3), (''total_amount'', num 0), (''start_time'', JStr ''2025-01-01''),
        (''end_time'', JStr ''2025-02-01''), (''cover'', JStr ''lamp.png''),
        (''full_content'', JStr ''About the lamp''), (''project_team'', JStr ''Two people''),
        (''faq'', JArr [])]))
     = (sample_db, status_json 400 (JObj
          [(''status'', JBool False),
           (''message'', JStr (msg_missing_prefix @ ''total_amount''))]))"
  by (simp add: sample_defs requiredFields_def createProject_def createProject_try_def
      checkMissingProjectFields_def Let_def attempt_def)

text \<open>
  C4, amended: for a body that is neither undefined nor null, \<open>createProject\<close> itself
  answers 400 if and only if at least one of the ten required fields is falsy in the body
  (absent, null, false, 0, NaN or the empty string), and the message then lists exactly the
  falsy fields, in the order of the list of required fields. When all ten are truthy, no
  answer of the handler has status 400 (a 400 can then only come from a forwarded error).
\<close>

theorem C4_missing_fields:
  assumes "\<not> nullish (req_body req)"
  shows "((\<exists>f\<in>set requiredFields. \<not> truthy (jsprop (req_body req) f)) \<longrightarrow>
            createProject E db req = (db, status_json 400 (JObj
              [(''status'', JBool False),
               (''message'', JStr (msg_missing_prefix @ join '', ''
                  (filter (\<lambda>f. \<not> truthy (jsprop (req_body req) f)) requiredFields)))])))
       \<and> ((\<forall>f\<in>set requiredFields. truthy (jsprop (req_body req) f)) \<longrightarrow>
            (\<forall>r. snd (createProject E db req) = Respond r \<longrightarrow> code r \<noteq> num 400))"
proof (intro conjI impI allI)
  assume "\<exists>f\<in>set requiredFields. \<not> truthy (jsprop (req_body req) f)"
  from checkMissing_nonempty [OF assms this, of E]
  obtain ms where ms: "checkMissingProjectFields E (req_body req) = Inr ms" "ms \<noteq> []"
    "ms = filter (\<lambda>f. \<not> truthy (jsprop (req_body req) f)) requiredFields" by blast
  with assms show "createProject E db req = (db, status_json 400 (JObj
              [(''status'', JBool False),
               (''message'', JStr (msg_missing_prefix @ join '', ''
                  (filter (\<lambda>f. \<not> truthy (jsprop (req_body req) f)) requiredFields)))]))"
    by (simp add: createProject_def createProject_try_def Let_def attempt_def)
next
  fix r
  assume all: "\<forall>f\<in>set requiredFields. truthy (jsprop (req_body req) f)"
    and r: "snd (createProject E db req) = Respond r"
  from checkMissing_empty [OF assms all, of E] assms r
  show "code r \<noteq> num 400"
    by (auto simp: createProject_def createProject_try_def Let_def attempt_def await_def
        status_json_def
        split: option.splits sum.splits prod.splits if_splits)
qed

text \<open>
  C4 on the samples: a body with a title and an empty cover is answered 400 with the nine
  other names, the cover among them; a body with all ten fields truthy creates project 8.
\<close>

theorem C4_witness:
  "createProject sample_env sample_db (sample_request ''u1'' ''1''
       (JObj [(''title'', JStr ''Lamp''), (''cover'', JStr '''')]))
     = (sample_db, status_json 400 (JObj
          [(''status'', JBool False),
           (''message'', JStr (msg_missing_prefix @
              ''summary, category_id, total_amount, start_time, end_time, cover, full_content, project_team, faq''))]))
   \<and> createProject sample_env sample_db (sample_request ''u1'' ''1''
       (JObj [(''title'', JStr ''Lamp''), (''summary'', JStr ''A desk lamp''),
        (''category_id'', num 3), (''total_amount'', num 1000), (''start_time'', JStr ''2025-01-01''),
        (''end_time'', JStr ''2025-02-01''), (''cover'', JStr ''lamp.png''),
        (''full_content'', JStr ''About the lamp''), (''project_team'', JStr ''Two people''),
        (''faq'', JArr [])]))
     = (sample_db\<lparr>projects := (projects sample_db)(8 \<mapsto>
           \<lparr>title = JStr ''Lamp'', summary = JStr ''A desk lamp'', total_amount = num 1000,
            start_time = JStr ''2025-01-01'', end_time = JStr ''2025-02-01'',
            cover = JStr ''lamp.png'', full_content = JStr ''About the lamp'',
            project_team = JStr ''Two people'', faq = JArr [],
            category = JObj [(''id'', num 3)], user_id = JStr ''u1'',
            user = JObj [(''id'', JStr ''u1'')]\<rparr>), next_project_id := 9\<rparr>,
        status_json 200 (JObj
          [(''status'', JBool True), (''message'', JStr msg_project_created),
           (''data'', JObj [(''project_id'', num 8)])]))"
  using C4_missing_fields [where E = sample_env and db = sample_db
      and req = "sample_request ''u1'' ''1'' (JObj [(''title'', JStr ''Lamp''), (''cover'', JStr '''')])"]
    C4_missing_fields [where E = sample_env and db = sample_db
      and req = "sample_request ''u1'' ''1''
       (JObj [(''title'', JStr ''Lamp''), (''summary'', JStr ''A desk lamp''),
        (''category_id'', num 3), (''total_amount'', num 1000), (''start_time'', JStr ''2025-01-01''),
        (''end_time'', JStr ''2025-02-01''), (''cover'', JStr ''lamp.png''),
        (''full_content'', JStr ''About the lamp''), (''project_team'', JStr ''Two people''),
        (''faq'', JArr [])])"]
  by (simp add: sample_defs requiredFields_def createProject_def createProject_try_def
      checkMissingProjectFields_def Let_def attempt_def await_def bearer_token_def getProp_def)

subsection \<open>C5: the replacement of the plans is not atomic\<close>


subsection \<open>C6: reading a project\<close>

text \<open>
  C6: when the lookup does not reject, \<open>getProject\<close> answers an existing project id with
  200 and the fields of the project, with \<open>faq\<close> an empty array when the stored one is
  null or undefined (or otherwise falsy), and with the plans of the project, all of them
  and no other, in ascending order of \<open>plan_id\<close>, each given by its six display fields
  with the stored values (and no \<open>plan_id\<close>); for an id that names no project (or is not a
  number) it forwards the 404 error, which the error handler answers with status 404. The
  store is not changed.
\<close>

theorem C6_project_read:
  assumes "rejects E FindProjectWithPlans = None"
  shows "(parseInt E (jsprop (req_params req) ''project_id'') = Some i \<and> projects db i = Some p \<longrightarrow>
            (\<exists>sortedPlans.
               getProject E db req = (db, status_json 200 (JObj
                 [(''status'', JBool True),
                  (''data'', JObj
                     [(''title'', title p), (''summary'', summary p), (''category'', JUndefined),
                      (''total_amount'', total_amount p), (''start_time'', start_time p),
                      (''end_time'', end_time p), (''cover'', cover p),
                      (''full_content'', full_content p), (''project_team'', project_team p),
                      (''faq'', if nullish (faq p) then JArr [] else or_else (faq p) (JArr [])),
                      (''plans'', JArr (map (\<lambda>pl. JObj
                             [(''plan_name'', plan_name pl), (''amount'', amount pl),
                              (''quantity'', quantity pl), (''feedback'', feedback pl),
                              (''feedback_img'', feedback_img pl),
                              (''delivery_date'', delivery_date pl)]) sortedPlans))])]))
               \<and> sorted (map plan_id sortedPlans)
               \<and> mset sortedPlans = mset (plans_of db i)))
       \<and> ((\<forall>j. parseInt E (jsprop (req_params req) ''project_id'') = Some j \<longrightarrow> projects db j = None) \<longrightarrow>
            getProject E db req = (db, Next_err (appError 404 (JStr msg_no_such_project)))
            \<and> code (reply (snd (getProject E db req))) = num 404)"
proof (intro conjI impI)
  assume ex: "parseInt E (jsprop (req_params req) ''project_id'') = Some i \<and> projects db i = Some p"
  let ?sorted = "js_sort (\<lambda>a b. plan_id a - plan_id b) (plans_of db i)"
  have nf: "(if nullish (faq p) then JArr [] else or_else (faq p) (JArr [])) = or_else (faq p) (JArr [])"
    by (cases "faq p") (simp_all add: or_else_def)
  have "getProject E db req = (db, status_json 200 (JObj
                 [(''status'', JBool True),
                  (''data'', JObj
                     [(''title'', title p), (''summary'', summary p), (''category'', JUndefined),
                      (''total_amount'', total_amount p), (''start_time'', start_time p),
                      (''end_time'', end_time p), (''cover'', cover p),
                      (''full_content'', full_content p), (''project_team'', project_team p),
                      (''faq'', if nullish (faq p) then JArr [] else or_else (faq p) (JArr [])),
                      (''plans'', JArr (map (\<lambda>pl. JObj
                             [(''plan_name'', plan_name pl), (''amount'', amount pl),
                              (''quantity'', quantity pl), (''feedback'', feedback pl),
                              (''feedback_img'', feedback_img pl),
                              (''delivery_date'', delivery_date pl)]) ?sorted))])]))"
    using assms ex unfolding nf
    by (simp add: getProject_def getProject_try_def await_def find_project_def Let_def
        shape_plan_def [abs_def])
  moreover have "sorted (map plan_id ?sorted)" by (rule sorted_js_sort)
  moreover have "mset ?sorted = mset (plans_of db i)" by (rule mset_js_sort)
  ultimately show "\<exists>sortedPlans.
               getProject E db req = (db, status_json 200 (JObj
                 [(''status'', JBool True),
                  (''data'', JObj
                     [(''title'', title p), (''summary'', summary p), (''category'', JUndefined),
                      (''total_amount'', total_amount p), (''start_time'', start_time p),
                      (''end_time'', end_time p), (''cover'', cover p),
                      (''full_content'', full_content p), (''project_team'', project_team p),
                      (''faq'', if nullish (faq p) then JArr [] else or_else (faq p) (JArr [])),
                      (''plans'', JArr (map (\<lambda>pl. JObj
                             [(''plan_name'', plan_name pl), (''amount'', amount pl),
                              (''quantity'', quantity pl), (''feedback'', feedback pl),
                              (''feedback_img'', feedback_img pl),
                              (''delivery_date'', delivery_date pl)]) sortedPlans))])]))
               \<and> sorted (map plan_id sortedPlans)
               \<and> mset sortedPlans = mset (plans_of db i)"
    by blast
next
  assume none: "\<forall>j. parseInt E (jsprop (req_params req) ''project_id'') = Some j \<longrightarrow> projects db j = None"
  then have "find_project db (parseInt E (jsprop (req_params req) ''project_id'')) = None"
    by (auto simp: find_project_def split: option.splits)
  with assms show run: "getProject E db req = (db, Next_err (appError 404 (JStr msg_no_such_project)))"
    by (simp add: getProject_def getProject_try_def await_def Let_def)
  then show "code (reply (snd (getProject E db req))) = num 404"
    by (simp add: code_reply_appError)
qed

text \<open>
  C6 on the samples: project 1 is read with its plans in the order 1, 2 (they are stored
  in the order 2, 1) and an empty \<open>faq\<close>; project 9 does not exist.
\<close>

theorem C6_witness:
  "rejects sample_env FindProjectWithPlans = None
   \<and> getProject sample_env sample_db (sample_request ''u2'' ''1'' JUndefined)
      = (sample_db, status_json 200 (JObj
          [(''status'', JBool True),
           (''data'', JObj
              [(''title'', JStr ''Lamp''), (''summary'', JStr ''A desk lamp''), (''category'', JUndefined),
               (''total_amount'', num 1000), (''start_time'', JStr ''2025-01-01''),
               (''end_time'', JStr ''2025-02-01''), (''cover'', JStr ''lamp.png''),
               (''full_content'', JStr ''About the lamp''), (''project_team'', JStr ''Two people''),
               (''faq'', JArr []),
               (''plans'', JArr
                  [JObj [(''plan_name'', JStr ''Early''), (''amount'', num 100),
                         (''quantity'', num 5), (''feedback'', JStr ''A postcard''),
                         (''feedback_img'', JStr ''card.png''),
                         (''delivery_date'', JStr ''2025-06-01'')],
                   JObj [(''plan_name'', JStr ''Late''), (''amount'', num 100),
                         (''quantity'', num 5), (''feedback'', JStr ''A postcard''),
                         (''feedback_img'', JStr ''card.png''),
                         (''delivery_date'', JStr ''2025-06-01'')]])])]))
   \<and> getProject sample_env sample_db (sample_request ''u2'' ''9'' JUndefined)
      = (sample_db, Next_err (appError 404 (JStr msg_no_such_project)))"
  using C6_project_read [where E = sample_env and db = sample_db and i = 1 and p = sample_project
      and req = "sample_request ''u2'' ''1'' JUndefined"]
    C6_project_read [where E = sample_env and db = sample_db
      and req = "sample_request ''u2'' ''9'' JUndefined"]
  by (simp add: sample_defs getProject_def getProject_try_def await_def find_project_def Let_def
      plans_of_def or_else_def shape_plan_def)

subsection \<open>C7: adding a plan to a project\<close>

text \<open>
  C7 as stated fails: project 9 does not exist and the body has no \<open>plans\<close> object.
  The handler destructures \<open>req.body.plans\<close> before it looks the project up, the
  destructuring throws, and the error forwarded has status 500, not 404.
\<close>

theorem C7_counterexample:
  "sample_parseInt (jsprop (req_params (sample_request ''u1'' ''9'' (JObj []))) ''id'') = Some 9
   \<and> projects sample_db 9 = None
   \<and> createProjectPlan sample_env sample_db (sample_request ''u1'' ''9'' (JObj []))
      = (sample_db, Next_err (appError 500 (JStr ''Cannot read properties of undefined'')))
   \<and> code (reply (snd (createProjectPlan sample_env sample_db (sample_request ''u1'' ''9'' (JObj [])))))
      = num 500"
  by (simp add: sample_defs createProjectPlan_def createProjectPlan_try_def Let_def attempt_def
      await_def getProp_def or_else_def appError_def reply_def error_envelope_def or_final_def
      valid_status_def)

text \<open>
  C7, amended: when \<open>req.body.plans\<close> is neither undefined nor null and the lookup does
  not reject, \<open>createProjectPlan\<close> answers 404 and leaves the store as it was if the id
  names no project, and otherwise (the insert not rejecting) appends exactly one plan, linked
  to that project, and answers 201 with the created plan. In every run, a plan of the store
  left was there before or belongs to a project that exists.
\<close>

theorem C7_plan_creation:
  "(getProp E (req_body req) ''plans'' = Inr plans \<and> \<not> nullish plans
      \<and> rejects E FindProjectForPlan = None \<longrightarrow>
      ((\<forall>j. parseInt E (jsprop (req_params req) ''id'') = Some j \<longrightarrow> projects db j = None) \<longrightarrow>
          createProjectPlan E db req = (db, status_json 404 (JObj
            [(''status'', JBool False), (''message'', JStr msg_project_not_found)])))
      \<and> (parseInt E (jsprop (req_params req) ''id'') = Some i \<and> projects db i = Some p
           \<and> rejects E SavePlan = None \<longrightarrow>
          createProjectPlan E db req =
            (db\<lparr>projectPlans := projectPlans db @
                 [\<lparr>plan_name = jsprop plans ''plan_name'', amount = jsprop plans ''amount'',
                   quantity = jsprop plans ''quantity'', feedback = jsprop plans ''feedback'',
                   feedback_img = jsprop plans ''feedback_img'',
                   delivery_date = jsprop plans ''delivery_date'',
                   plan_id = next_plan_id db, project_id = i\<rparr>],
                next_plan_id := next_plan_id db + 1\<rparr>,
             status_json 201 (JObj
               [(''status'', JBool True), (''message'', JStr msg_plan_created),
                (''data'', plan_entity
                   \<lparr>plan_name = jsprop plans ''plan_name'', amount = jsprop plans ''amount'',
                    quantity = jsprop plans ''quantity'', feedback = jsprop plans ''feedback'',
                    feedback_img = jsprop plans ''feedback_img'',
                    delivery_date = jsprop plans ''delivery_date'',
                    plan_id = next_plan_id db, project_id = i\<rparr> (project_entity i p))]))))
   \<and> set (projectPlans (fst (createProjectPlan E db req)))
       \<subseteq> set (projectPlans db) \<union> {pl. projects db (project_id pl) \<noteq> None}"
proof (intro conjI impI)
  assume h: "getProp E (req_body req) ''plans'' = Inr plans \<and> \<not> nullish plans
      \<and> rejects E FindProjectForPlan = None"
    and none: "\<forall>j. parseInt E (jsprop (req_params req) ''id'') = Some j \<longrightarrow> projects db j = None"
  from none have "find_project db (parseInt E (jsprop (req_params req) ''id'')) = None"
    by (auto simp: find_project_def split: option.splits)
  with h show "createProjectPlan E db req = (db, status_json 404 (JObj
            [(''status'', JBool False), (''message'', JStr msg_project_not_found)]))"
    by (simp add: createProjectPlan_def createProjectPlan_try_def Let_def attempt_def await_def)
next
  assume h: "getProp E (req_body req) ''plans'' = Inr plans \<and> \<not> nullish plans
      \<and> rejects E FindProjectForPlan = None"
    and ex: "parseInt E (jsprop (req_params req) ''id'') = Some i \<and> projects db i = Some p
           \<and> rejects E SavePlan = None"
  then show "createProjectPlan E db req =
            (db\<lparr>projectPlans := projectPlans db @
                 [\<lparr>plan_name = jsprop plans ''plan_name'', amount = jsprop plans ''amount'',
                   quantity = jsprop plans ''quantity'', feedback = jsprop plans ''feedback'',
                   feedback_img = jsprop plans ''feedback_img'',
                   delivery_date = jsprop plans ''delivery_date'',
                   plan_id = next_plan_id db, project_id = i\<rparr>],
                next_plan_id := next_plan_id db + 1\<rparr>,
             status_json 201 (JObj
               [(''status'', JBool True), (''message'', JStr msg_plan_created),
                (''data'', plan_entity
                   \<lparr>plan_name = jsprop plans ''plan_name'', amount = jsprop plans ''amount'',
                    quantity = jsprop plans ''quantity'', feedback = jsprop plans ''feedback'',
                    feedback_img = jsprop plans ''feedback_img'',
                    delivery_date = jsprop plans ''delivery_date'',
                    plan_id = next_plan_id db, project_id = i\<rparr> (project_entity i p))]))"
    by (simp add: createProjectPlan_def createProjectPlan_try_def Let_def attempt_def await_def
        find_project_def)
next
  show "set (projectPlans (fst (createProjectPlan E db req)))
       \<subseteq> set (projectPlans db) \<union> {pl. projects db (project_id pl) \<noteq> None}"
    by (rule createProjectPlan_plans)
qed

text \<open>
  C7 on the samples: a plan for the missing project 9 is answered 404; a plan for project 7
  is appended with the identifier 4.
\<close>

theorem C7_witness:
  "createProjectPlan sample_env sample_db (sample_request ''u1'' ''9''
        (JObj [(''plans'', JObj [(''plan_name'', JStr ''Gold''), (''amount'', num 300)])]))
      = (sample_db, status_json 404 (JObj
            [(''status'', JBool False), (''message'', JStr msg_project_not_found)]))
   \<and> projectPlans (fst (createProjectPlan sample_env sample_db (sample_request ''u1'' ''7''
        (JObj [(''plans'', JObj [(''plan_name'', JStr ''Gold''), (''amount'', num 300)])]))))
      = projectPlans sample_db @
          [\<lparr>plan_name = JStr ''Gold'', amount = num 300, quantity = JUndefined,
            feedback = JUndefined, feedback_img = JUndefined, delivery_date = JUndefined,
            plan_id = 4, project_id = 7\<rparr>]"
  using C7_plan_creation [where E = sample_env and db = sample_db
      and plans = "JObj [(''plan_name'', JStr ''Gold''), (''amount'', num 300)]"
      and req = "sample_request ''u1'' ''9''
        (JObj [(''plans'', JObj [(''plan_name'', JStr ''Gold''), (''amount'', num 300)])])"]
    C7_plan_creation [where E = sample_env and db = sample_db and i = 7 and p = other_project
      and plans = "JObj [(''plan_name'', JStr ''Gold''), (''amount'', num 300)]"
      and req = "sample_request ''u1'' ''7''
        (JObj [(''plans'', JObj [(''plan_name'', JStr ''Gold''), (''amount'', num 300)])])"]
  by (simp add: sample_defs getProp_def)

subsection \<open>C8: the error handler\<close>

text \<open>
  C8 says that every error reaching the error handler is answered with the error's
  status (500 when it has none) and the JSON envelope. The code misses the errors raised
  before \<open>pino-http\<close> has run: the body parsers are mounted first, \<open>req.log\<close> is still
  unset, and \<open>req.log.error(...)\<close> throws inside the handler. For a JSON body that does
  not parse, \<open>express.json\<close> raises an error tagged 400; the client receives the
  framework's 500 error page, not status 400 with the envelope. The same error on a request
  that has its logger is answered as C8 says: 400, "failed", the error's message.
\<close>

theorem C8_body_parser_error:
  "dispatch (layers malformed_json_libs) sample_db malformed_request = (sample_db, Raise parse_error)
   \<and> truthy parse_error
   \<and> jsprop parse_error ''status'' = num 400
   \<and> raised_request (layers malformed_json_libs) sample_db malformed_request = malformed_request
   \<and> \<not> req_log malformed_request
   \<and> errorHandler parse_error malformed_request = None
   \<and> app malformed_json_libs sample_db malformed_request
        = (sample_db, \<lparr>code = num 500, payload = ErrorPage\<rparr>)
   \<and> errorHandler parse_error (malformed_request\<lparr>req_log := True\<rparr>)
        = Some \<lparr>code = num 400, payload = Json (JObj
            [(''status'', JStr ''failed''),
             (''message'', JStr ''Unexpected end of JSON input'')])\<rparr>"
  by (simp add: app_def layers_def pure_layer_def pass_libs_def malformed_json_libs_def
      malformed_request_def parse_error_def errorHandler_def error_envelope_def or_final_def
      finalhandler_def valid_status_def or_else_def Let_def)

subsection \<open>C9: the 404 handler\<close>

text \<open>
  C9 as stated fails twice. The body the code sends carries the message of the source
  (the twelve bytes \<open>msg_no_route\<close>), not the text "no such route". And the method
  matters: with the \<open>cors\<close> middleware as its defaults make it, a request of method
  OPTIONS never reaches the 404 handler and is answered 204.
\<close>

theorem C9_counterexample:
  "dispatch (layers pass_libs) sample_db (sample_request ''u1'' ''1'' JUndefined)
      = (sample_db, Pass (sample_request ''u1'' ''1'' JUndefined))
   \<and> snd (app pass_libs sample_db (sample_request ''u1'' ''1'' JUndefined))
      \<noteq> \<lparr>code = num 404, payload = Json (JObj
           [(''status'', JStr ''error''), (''message'', JStr ''no such route'')])\<rparr>
   \<and> snd (app preflight_libs sample_db
        ((sample_request ''u1'' ''1'' JUndefined)\<lparr>req_method := ''OPTIONS''\<rparr>))
      = \<lparr>code = num 204, payload = Text []\<rparr>"
  by (simp add: app_def notFound_def layers_def pure_layer_def pass_libs_def healthcheck_def
      sample_request_def msg_no_route_def preflight_libs_def cors_default_def)

text \<open>
  C9, amended: every request that all the middleware and routers mounted before the 404
  handler pass on (so one that matches no route and that no library middleware answers)
  receives, whatever its method, status 404 with the JSON body of status "error" and the
  message of the source, \<open>msg_no_route\<close>.
\<close>

theorem C9_unmatched_route:
  assumes "dispatch (layers L) db req = (db', Pass req')"
  shows "app L db req = (db', \<lparr>code = num 404, payload = Json (JObj
           [(''status'', JStr ''error''), (''message'', JStr msg_no_route)])\<rparr>)"
  using assms by (simp add: app_def notFound_def)

text \<open>
  C9 on the samples: a PATCH request that the libraries and routers pass on.
\<close>

theorem C9_witness:
  "dispatch (layers pass_libs) sample_db (sample_request ''u1'' ''1'' JUndefined)
      = (sample_db, Pass (sample_request ''u1'' ''1'' JUndefined))
   \<and> app pass_libs sample_db (sample_request ''u1'' ''1'' JUndefined)
      = (sample_db, \<lparr>code = num 404, payload = Json (JObj
           [(''status'', JStr ''error''), (''message'', JStr msg_no_route)])\<rparr>)"
  using C9_unmatched_route [of pass_libs sample_db "sample_request ''u1'' ''1'' JUndefined"
      sample_db "sample_request ''u1'' ''1'' JUndefined"]
  by (simp add: layers_def pure_layer_def pass_libs_def healthcheck_def sample_request_def)

subsection \<open>C10: an update never changes the category\<close>

text \<open>
  C10: whatever the update request (also one that carries \<open>category_id\<close>), the category
  of every project is afterwards what it was before.
\<close>

theorem C10_category_unchanged:
  "map_option category (projects (fst (updateProject E db req)) j)
     = map_option category (projects db j)"
proof (cases "updateProject E db req")
  case (Pair db' out)
  from updateProject_projects [OF Pair] show ?thesis
  proof
    assume "projects db' = projects db \<and> (\<forall>r. out \<noteq> Respond r)"
    with Pair show ?thesis by simp
  next
    assume "\<exists>uid i p p'. findOwned db (parseInt E (jsprop (req_params req) ''project_id'')) uid = Some (i, p)
        \<and> assign_fields E (req_body req) p = Inr p'
        \<and> projects db' = (projects db)(i \<mapsto> p')
        \<and> out = status_json 200 (JObj
           [(''status'', JBool True),
            (''data'', JObj [(''project_id'', num (of_int i))])])"
    then obtain uid i p p' where f: "findOwned db (parseInt E (jsprop (req_params req) ''project_id'')) uid = Some (i, p)"
      and a: "assign_fields E (req_body req) p = Inr p'"
      and pr: "projects db' = (projects db)(i \<mapsto> p')" by blast
    from findOwned_Some [OF f] have "projects db i = Some p" by simp
    with pr assign_fields_Inr(1) [OF a] Pair show ?thesis by simp
  qed
qed

text \<open>
  C10 on the samples: the owner sends a new title and a \<open>category_id\<close>; the title is
  stored, the category stays.
\<close>

theorem C10_witness:
  "map_option category (projects (fst (updateProject sample_env sample_db
       (sample_request ''u1'' ''1'' (JObj [(''category_id'', num 9), (''title'', JStr ''Torch'')])))) 1)
     = Some (JObj [(''id'', num 3)])
   \<and> map_option title (projects (fst (updateProject sample_env sample_db
       (sample_request ''u1'' ''1'' (JObj [(''category_id'', num 9), (''title'', JStr ''Torch'')])))) 1)
     = Some (JStr ''Torch'')"
  using C10_category_unchanged [of sample_env sample_db
      "sample_request ''u1'' ''1'' (JObj [(''category_id'', num 9), (''title'', JStr ''Torch'')])" 1]
  by (simp add: sample_defs handler_defs)

end
